theory Spec2Isabelle
  imports Complex_Main "HOL-Library.Word"
begin

section \<open>Ammonia sensor module\<close>

text \<open>
  The firmware computes in C \<open>float\<close>. The embedding idealises \<open>float\<close> as \<open>real\<close>:
  rounding, infinities and NaN are outside the model, every other step of the source is
  kept. \<open>unsigned long\<close> (the type of \<open>millis()\<close>) is a 32-bit word. Values handed over by
  the hardware (the averaged electrode voltage, the raw temperature and pH readings, the
  clock) are parameters of the functions that consume them.
\<close>

subsection \<open>Constants of the module\<close>

definition CALIBRATION_POINTS :: nat where "CALIBRATION_POINTS = 3"
definition MAX_READINGS_BUFFER :: nat where "MAX_READINGS_BUFFER = 10"

definition AMMONIA_MIN_RANGE :: real where "AMMONIA_MIN_RANGE = 0.01"
definition AMMONIA_MAX_RANGE :: real where "AMMONIA_MAX_RANGE = 100.0"
definition MIN_ACCEPTABLE_SLOPE :: real where "MIN_ACCEPTABLE_SLOPE = 50.0"
definition MAX_ACCEPTABLE_SLOPE :: real where "MAX_ACCEPTABLE_SLOPE = 65.0"

definition CALIB_STANDARD_1 :: real where "CALIB_STANDARD_1 = 1.0"
definition CALIB_STANDARD_2 :: real where "CALIB_STANDARD_2 = 10.0"
definition CALIB_STANDARD_3 :: real where "CALIB_STANDARD_3 = 100.0"

definition PKA_25C :: real where "PKA_25C = 9.25"
definition TEMP_COEFF :: real where "TEMP_COEFF = 0.0324"
definition REFERENCE_TEMP :: real where "REFERENCE_TEMP = 25.0"

definition TOXIC_WARNING_THRESHOLD :: real where "TOXIC_WARNING_THRESHOLD = 0.1"
definition TOXIC_CRITICAL_THRESHOLD :: real where "TOXIC_CRITICAL_THRESHOLD = 0.5"
definition TOXIC_ACUTE_THRESHOLD :: real where "TOXIC_ACUTE_THRESHOLD = 2.0"

subsection \<open>Data\<close>

text \<open>
  \<open>struct AmmoniaData\<close>. Its field \<open>slope\<close> is named \<open>electrodeSlope\<close> here, because
  \<open>struct CalibrationData\<close> has a field of the same name.
\<close>

record AmmoniaData =
  totalAmmonia :: real
  freeAmmonia :: real
  ammonium :: real
  pH :: real
  temperature :: real
  rawVoltage :: real
  electrodeSlope :: real
  timestamp :: "32 word"
  toxicityLevel :: string
  dataValid :: bool

text \<open>\<open>struct CalibrationData\<close>; the two \<open>float[CALIBRATION_POINTS]\<close> arrays are lists.\<close>

record CalibrationData =
  isValid :: bool
  slope :: real
  intercept :: real
  standards :: "real list"
  voltages :: "real list"
  calibrationDate :: "32 word"
  correlationCoeff :: real

text \<open>The anonymous \<open>RTC_DATA_ATTR\<close> struct \<open>rtcData\<close>.\<close>

record RtcData =
  bootCount :: "32 word"
  lastTotalAmmonia :: real
  lastFreeAmmonia :: real
  lastpH :: real
  lastTemp :: real
  toxicAlert :: bool

text \<open>
  The durable store. The firmware writes four values at the disjoint addresses
  \<open>CALIB_VALID_ADDR = 0\<close>, \<open>CALIB_SLOPE_ADDR = 4\<close>, \<open>CALIB_INTERCEPT_ADDR = 8\<close> and
  \<open>CALIB_DATE_ADDR = 12\<close>; each address is one typed cell of the record. The macro
  \<open>CALIB_POINTS_ADDR = 16\<close> is defined in the source and never used.
\<close>

record EEPROM =
  at_CALIB_VALID_ADDR :: bool
  at_CALIB_SLOPE_ADDR :: real
  at_CALIB_INTERCEPT_ADDR :: real
  at_CALIB_DATE_ADDR :: "32 word"

text \<open>The global variables of the sketch.\<close>

record AmmoniaState =
  currentReading :: AmmoniaData
  calibration :: CalibrationData
  ammoniaBuffer :: "real list"
  bufferIndex :: nat
  rtcData :: RtcData
  eeprom :: EEPROM

subsection \<open>Reading the auxiliary sensors\<close>

text \<open>\<open>readTemperature\<close>: the argument is what \<open>getTempCByIndex(0)\<close> returned.\<close>

definition readTemperature :: "real \<Rightarrow> real" where
  "readTemperature temp = (if temp > -50.0 \<and> temp < 125.0 then temp else REFERENCE_TEMP)"

text \<open>\<open>readPH\<close>: the argument is what \<open>response.toFloat()\<close> returned.\<close>

definition readPH :: "real \<Rightarrow> real" where
  "readPH p = (if p \<ge> 0.0 \<and> p \<le> 14.0 then p else 7.0)"

text \<open>
  \<open>readISEVoltage\<close>: \<open>readings\<close> are the values the ten calls of \<open>analogRead\<close> returned;
  \<open>readISEVoltage_body\<close> is one pass through the loop body on the pair
  \<open>(voltageSum, validReadings)\<close>.
\<close>

definition readISEVoltage_body :: "int \<Rightarrow> real \<times> nat \<Rightarrow> real \<times> nat" where
  "readISEVoltage_body rawReading acc =
     (let voltage = (real_of_int rawReading * 3.3) / 4095.0
      in if voltage \<ge> 0.0 \<and> voltage \<le> 3.3 then (fst acc + voltage, snd acc + 1) else acc)"

definition readISEVoltage :: "int list \<Rightarrow> real" where
  "readISEVoltage readings =
     (let acc = fold readISEVoltage_body (take 10 readings) (0, 0)
      in if snd acc > 0 then fst acc / real (snd acc) else 0.0)"

subsection \<open>Concentration and speciation\<close>

definition calculateAmmoniaConcentration :: "CalibrationData \<Rightarrow> real \<Rightarrow> real \<Rightarrow> real" where
  "calculateAmmoniaConcentration cal voltage temp =
     (if \<not> isValid cal then 0.0
      else
        let tempCompensatedSlope = slope cal * (temp + 273.15) / (REFERENCE_TEMP + 273.15);
            logConcentration = (voltage - intercept cal) / tempCompensatedSlope;
            concentration = 10 powr logConcentration
        in concentration)"

definition calculateFreeAmmoniaFraction :: "real \<Rightarrow> real \<Rightarrow> real" where
  "calculateFreeAmmoniaFraction p temp =
     (let pKa = PKA_25C + (TEMP_COEFF * (temp - REFERENCE_TEMP));
          powerTerm = pKa - p;
          fraction = 1.0 / (1.0 + 10 powr powerTerm)
      in fraction)"

definition assessToxicity :: "real \<Rightarrow> string" where
  "assessToxicity free =
     (if free \<ge> TOXIC_ACUTE_THRESHOLD then ''ACUTE''
      else if free \<ge> TOXIC_CRITICAL_THRESHOLD then ''CRITICAL''
      else if free \<ge> TOXIC_WARNING_THRESHOLD then ''WARNING''
      else ''SAFE'')"

subsection \<open>One sampling cycle\<close>

text \<open>
  \<open>takeAmmoniaMeasurement\<close>. \<open>tempRaw\<close> and \<open>phRaw\<close> are the raw device readings,
  \<open>iseVoltage\<close> is the value returned by \<open>readISEVoltage()\<close> and \<open>now\<close> the value of
  \<open>millis()\<close>. \<open>publishSensorData\<close> serialises the fields of \<open>currentReading\<close> as they
  stand at the end of the accepted branch, so the published \<open>total_ammonia\<close> is
  \<open>totalAmmonia (currentReading st')\<close>.
\<close>

definition takeAmmoniaMeasurement ::
    "real \<Rightarrow> real \<Rightarrow> real \<Rightarrow> 32 word \<Rightarrow> AmmoniaState \<Rightarrow> AmmoniaState" where
  "takeAmmoniaMeasurement tempRaw phRaw iseVoltage now st =
     (let temperature' = readTemperature tempRaw;
          pH' = readPH phRaw;
          totalAmmonia' = calculateAmmoniaConcentration (calibration st) iseVoltage temperature';
          freeAmmoniaFraction = calculateFreeAmmoniaFraction pH' temperature';
          freeAmmonia' = totalAmmonia' * freeAmmoniaFraction;
          ammonium' = totalAmmonia' * (1.0 - freeAmmoniaFraction)
      in
        if totalAmmonia' \<ge> AMMONIA_MIN_RANGE \<and> totalAmmonia' \<le> AMMONIA_MAX_RANGE then
          let buf = (ammoniaBuffer st)[bufferIndex st := totalAmmonia'];
              idx = (bufferIndex st + 1) mod MAX_READINGS_BUFFER;
              avgAmmonia =
                sum_list (map (\<lambda>i. buf ! i) [0..<MAX_READINGS_BUFFER]) / real MAX_READINGS_BUFFER
          in st\<lparr>ammoniaBuffer := buf,
                bufferIndex := idx,
                currentReading :=
                  \<lparr>totalAmmonia = avgAmmonia,
                   freeAmmonia = freeAmmonia',
                   ammonium = ammonium',
                   pH = pH',
                   temperature = temperature',
                   rawVoltage = iseVoltage,
                   electrodeSlope = slope (calibration st),
                   timestamp = now,
                   toxicityLevel = assessToxicity freeAmmonia',
                   dataValid = True\<rparr>,
                rtcData :=
                  (rtcData st)\<lparr>lastTotalAmmonia := totalAmmonia',
                                lastFreeAmmonia := freeAmmonia',
                                lastpH := pH',
                                lastTemp := temperature',
                                toxicAlert := (freeAmmonia' \<ge> TOXIC_WARNING_THRESHOLD)\<rparr>\<rparr>
        else st\<lparr>currentReading := (currentReading st)\<lparr>dataValid := False\<rparr>\<rparr>)"

subsection \<open>Calibration\<close>

text \<open>
  \<open>calculateCalibrationCurve\<close> writes the fitted slope, intercept and correlation
  coefficient straight into the global \<open>calibration\<close>.
\<close>

definition calculateCalibrationCurve ::
    "real list \<Rightarrow> real list \<Rightarrow> CalibrationData \<Rightarrow> CalibrationData" where
  "calculateCalibrationCurve stds volts cal =
     (let logStandards = map (\<lambda>i. log 10 (stds ! i)) [0..<CALIBRATION_POINTS];
          n = real CALIBRATION_POINTS;
          sumX = sum_list (map (\<lambda>i. logStandards ! i) [0..<CALIBRATION_POINTS]);
          sumY = sum_list (map (\<lambda>i. volts ! i) [0..<CALIBRATION_POINTS]);
          sumXY = sum_list (map (\<lambda>i. logStandards ! i * volts ! i) [0..<CALIBRATION_POINTS]);
          sumX2 = sum_list (map (\<lambda>i. logStandards ! i * logStandards ! i) [0..<CALIBRATION_POINTS]);
          slope' = (n * sumXY - sumX * sumY) / (n * sumX2 - sumX * sumX);
          intercept' = (sumY - slope' * sumX) / n;
          sumY2 = sum_list (map (\<lambda>i. volts ! i * volts ! i) [0..<CALIBRATION_POINTS]);
          numerator = n * sumXY - sumX * sumY;
          denominator = sqrt ((n * sumX2 - sumX * sumX) * (n * sumY2 - sumY * sumY))
      in cal\<lparr>slope := slope',
              intercept := intercept',
              correlationCoeff := (if denominator \<noteq> 0 then numerator / denominator else 0.0)\<rparr>)"

definition saveCalibrationData :: "CalibrationData \<Rightarrow> EEPROM \<Rightarrow> EEPROM" where
  "saveCalibrationData cal ee =
     ee\<lparr>at_CALIB_VALID_ADDR := isValid cal,
        at_CALIB_SLOPE_ADDR := slope cal,
        at_CALIB_INTERCEPT_ADDR := intercept cal,
        at_CALIB_DATE_ADDR := calibrationDate cal\<rparr>"

definition loadCalibrationData :: "EEPROM \<Rightarrow> CalibrationData \<Rightarrow> CalibrationData" where
  "loadCalibrationData ee cal =
     cal\<lparr>isValid := at_CALIB_VALID_ADDR ee,
         slope := at_CALIB_SLOPE_ADDR ee,
         intercept := at_CALIB_INTERCEPT_ADDR ee,
         calibrationDate := at_CALIB_DATE_ADDR ee\<rparr>"

text \<open>
  \<open>performCalibration\<close>. \<open>readings i\<close> are the values the ten calls of \<open>analogRead\<close>
  returned while \<open>readISEVoltage()\<close> read standard \<open>i\<close>, and \<open>now\<close> is \<open>millis()\<close>. The
  waits for the operator that precede each reading (\<open>waitForButtonPress\<close>, \<open>delay\<close>) do not
  touch the state; the run is that of an operator who confirms all three standards.
\<close>

definition performCalibration ::
    "(nat \<Rightarrow> int list) \<Rightarrow> 32 word \<Rightarrow> AmmoniaState \<Rightarrow> AmmoniaState" where
  "performCalibration readings now st =
     (let stds = [CALIB_STANDARD_1, CALIB_STANDARD_2, CALIB_STANDARD_3];
          volts = map (\<lambda>i. readISEVoltage (readings i)) [0..<CALIBRATION_POINTS];
          fitted = calculateCalibrationCurve stds volts (calibration st)
      in
        if \<bar>slope fitted\<bar> \<ge> MIN_ACCEPTABLE_SLOPE \<and> \<bar>slope fitted\<bar> \<le> MAX_ACCEPTABLE_SLOPE then
          let accepted =
                fitted\<lparr>isValid := True,
                       calibrationDate := now,
                       standards := map (\<lambda>i. stds ! i) [0..<CALIBRATION_POINTS],
                       voltages := map (\<lambda>i. volts ! i) [0..<CALIBRATION_POINTS]\<rparr>
          in st\<lparr>calibration := accepted, eeprom := saveCalibrationData accepted (eeprom st)\<rparr>
        else st\<lparr>calibration := fitted\<lparr>isValid := False\<rparr>\<rparr>)"

text \<open>
  After a restart the globals are zero-initialised and \<open>setup()\<close> calls
  \<open>loadCalibrationData\<close>.
\<close>

definition zeroCalibration :: CalibrationData where
  "zeroCalibration =
     \<lparr>isValid = False, slope = 0, intercept = 0, standards = [0, 0, 0], voltages = [0, 0, 0],
      calibrationDate = 0, correlationCoeff = 0\<rparr>"

section \<open>Nitrite/nitrate sensor module\<close>

text \<open>
  The nitrite/nitrate sketch declares its own \<open>struct CalibrationData\<close>, \<open>calibration\<close>,
  \<open>temperature\<close>, \<open>timestamp\<close>, \<open>sensorHealthy\<close> and \<open>consecutiveErrors\<close>; the names that
  clash with the ammonia sketch carry the suffix \<open>_nn\<close>.
\<close>

record SensorConfig =
  nitrite_slope :: real
  nitrite_intercept :: real
  nitrate_slope :: real
  nitrate_intercept :: real
  temp_coefficient :: real
  ph_compensation :: real
  conductivity_compensation :: real
  measurement_interval :: "32 word"
  calibration_interval :: "32 word"
  dummy_mode :: bool
  alarm_threshold_no2 :: real
  alarm_threshold_no3 :: real

text \<open>The default member initialisers of \<open>struct SensorConfig\<close>.\<close>

definition defaultSensorConfig :: SensorConfig where
  "defaultSensorConfig =
     \<lparr>nitrite_slope = -59.16, nitrite_intercept = 0.0,
      nitrate_slope = -59.16, nitrate_intercept = 0.0,
      temp_coefficient = 0.02, ph_compensation = 0.1, conductivity_compensation = 0.05,
      measurement_interval = 30000, calibration_interval = 86400000,
      dummy_mode = False, alarm_threshold_no2 = 0.5, alarm_threshold_no3 = 50.0\<rparr>"

record MeasurementData =
  nitrite_voltage :: real
  nitrate_voltage :: real
  nitrite_concentration :: real
  nitrate_concentration :: real
  temperature_nn :: real
  ph_value :: real
  conductivity :: real
  timestamp_nn :: "32 word"
  valid :: bool
  quality_score :: int

record CalibrationData_nn =
  nitrite_standards :: "real list"
  nitrate_standards :: "real list"
  nitrite_voltages :: "real list"
  nitrate_voltages :: "real list"
  calibrated :: bool
  last_calibration :: "32 word"

text \<open>The JSON document \<open>publishData\<close> sends, field by field.\<close>

record PublishedData =
  pub_timestamp :: "32 word"
  pub_nitrite_mg_l :: real
  pub_nitrate_mg_l :: real
  pub_temperature_c :: real
  pub_nitrite_voltage_mv :: real
  pub_nitrate_voltage_mv :: real
  pub_quality_score :: int
  pub_calibrated :: bool
  pub_sensor_health :: bool
  pub_dummy_mode :: bool

text \<open>The globals of the sketch; \<open>mqtt_out\<close> and \<open>alerts_out\<close> log what is published.\<close>

record NitriteState =
  config :: SensorConfig
  calibration_nn :: CalibrationData_nn
  sensorHealthy_nn :: bool
  consecutiveErrors_nn :: int
  mqtt_out :: "PublishedData list"
  alerts_out :: "(string \<times> real \<times> real) list"

text \<open>The eight values \<open>random()\<close> returns inside \<open>generateDummyData\<close>, in call order.\<close>

record RandomDraws =
  rnd_no2 :: int
  rnd_no3 :: int
  rnd_temp :: int
  rnd_no2_mv :: int
  rnd_no3_mv :: int
  rnd_ph :: int
  rnd_cond :: int
  rnd_quality :: int

definition calculateConcentrations :: "SensorConfig \<Rightarrow> CalibrationData_nn \<Rightarrow> MeasurementData \<Rightarrow> MeasurementData" where
  "calculateConcentrations cfg cal d =
     (if calibrated cal then
        d\<lparr>nitrite_concentration :=
             10 powr ((nitrite_voltage d - nitrite_voltages cal ! 1) / nitrite_slope cfg),
          nitrate_concentration :=
             10 powr ((nitrate_voltage d - nitrate_voltages cal ! 1) / nitrate_slope cfg)\<rparr>
      else
        d\<lparr>nitrite_concentration :=
             10 powr ((nitrite_voltage d - nitrite_intercept cfg) / nitrite_slope cfg),
          nitrate_concentration :=
             10 powr ((nitrate_voltage d - nitrate_intercept cfg) / nitrate_slope cfg)\<rparr>)"

definition applyTemperatureCompensation :: "SensorConfig \<Rightarrow> MeasurementData \<Rightarrow> MeasurementData" where
  "applyTemperatureCompensation cfg d =
     (let temp_factor = 1.0 + temp_coefficient cfg * (temperature_nn d - 25.0)
      in d\<lparr>nitrite_concentration := nitrite_concentration d * temp_factor,
            nitrate_concentration := nitrate_concentration d * temp_factor\<rparr>)"

definition applyCrossSensorCompensation :: "SensorConfig \<Rightarrow> MeasurementData \<Rightarrow> MeasurementData" where
  "applyCrossSensorCompensation cfg d =
     (let ph_factor = 1.0 + ph_compensation cfg * (ph_value d - 7.0);
          d1 = d\<lparr>nitrite_concentration := nitrite_concentration d * ph_factor\<rparr>;
          cond_factor = 1.0 + conductivity_compensation cfg * (conductivity d1 - 500.0) / 500.0
      in d1\<lparr>nitrite_concentration := nitrite_concentration d1 * cond_factor,
             nitrate_concentration := nitrate_concentration d1 * cond_factor\<rparr>)"

definition generateDummyData :: "RandomDraws \<Rightarrow> MeasurementData \<Rightarrow> MeasurementData" where
  "generateDummyData r d =
     d\<lparr>nitrite_concentration := 0.1 + real_of_int (rnd_no2 r) / 100.0,
       nitrate_concentration := 5.0 + real_of_int (rnd_no3 r) / 10.0,
       temperature_nn := 20.0 + real_of_int (rnd_temp r) / 10.0,
       nitrite_voltage := 100.0 + real_of_int (rnd_no2_mv r),
       nitrate_voltage := 200.0 + real_of_int (rnd_no3_mv r),
       ph_value := 7.0 + real_of_int (rnd_ph r) / 10.0,
       conductivity := 500.0 + real_of_int (rnd_cond r),
       valid := True,
       quality_score := 85 + rnd_quality r\<rparr>"

text \<open>\<open>calculateQualityScore\<close>; \<open>now\<close> is \<open>millis()\<close>, the age wraps as \<open>unsigned long\<close>.\<close>

definition calculateQualityScore :: "CalibrationData_nn \<Rightarrow> 32 word \<Rightarrow> MeasurementData \<Rightarrow> int" where
  "calculateQualityScore cal now d =
     (let score0 = (100 :: int);
          score1 = (if nitrite_concentration d > 5.0 then score0 - 20 else score0);
          score2 = (if nitrate_concentration d > 200.0 then score1 - 20 else score1);
          score3 = (if temperature_nn d < 10 \<or> temperature_nn d > 30 then score2 - 10 else score2);
          score4 = (if \<not> calibrated cal then score3 - 30 else score3);
          calibration_age = now - last_calibration cal;
          score5 = (if calibration_age > 604800000 then score4 - 20 else score4)
      in max 0 score5)"

definition publishData :: "MeasurementData \<Rightarrow> NitriteState \<Rightarrow> NitriteState" where
  "publishData d st =
     st\<lparr>mqtt_out := mqtt_out st @
          [\<lparr>pub_timestamp = timestamp_nn d,
            pub_nitrite_mg_l = nitrite_concentration d,
            pub_nitrate_mg_l = nitrate_concentration d,
            pub_temperature_c = temperature_nn d,
            pub_nitrite_voltage_mv = nitrite_voltage d,
            pub_nitrate_voltage_mv = nitrate_voltage d,
            pub_quality_score = quality_score d,
            pub_calibrated = calibrated (calibration_nn st),
            pub_sensor_health = sensorHealthy_nn st,
            pub_dummy_mode = dummy_mode (config st)\<rparr>]\<rparr>"

definition handleAlarms :: "MeasurementData \<Rightarrow> NitriteState \<Rightarrow> NitriteState" where
  "handleAlarms d st =
     (let a1 = (if nitrite_concentration d > alarm_threshold_no2 (config st)
                then [(''high_nitrite'', nitrite_concentration d, alarm_threshold_no2 (config st))]
                else []);
          a2 = (if nitrate_concentration d > alarm_threshold_no3 (config st)
                then [(''high_nitrate'', nitrate_concentration d, alarm_threshold_no3 (config st))]
                else [])
      in st\<lparr>alerts_out := alerts_out st @ a1 @ a2\<rparr>)"

text \<open>
  \<open>performMeasurement\<close>. The local \<open>MeasurementData data\<close> is not initialised in the
  source: \<open>uninit\<close> stands for whatever it holds on entry. \<open>mv_no2\<close>, \<open>mv_no3\<close> are the
  two \<open>readAnalogVoltage\<close> results, \<open>tempC\<close> is \<open>getTempCByIndex(0)\<close>, \<open>now\<close> stands for
  \<open>millis()\<close>, read at the start and again in \<open>calculateQualityScore\<close>. The result is the
  local record at the end and the new globals.
\<close>

definition performMeasurement ::
    "MeasurementData \<Rightarrow> RandomDraws \<Rightarrow> real \<Rightarrow> real \<Rightarrow> real \<Rightarrow> 32 word \<Rightarrow> NitriteState
       \<Rightarrow> MeasurementData \<times> NitriteState" where
  "performMeasurement uninit r mv_no2 mv_no3 tempC now st =
     (let d0 = uninit\<lparr>timestamp_nn := now\<rparr>;
          d1 = (if dummy_mode (config st) then generateDummyData r d0
                else
                  let a = d0\<lparr>nitrite_voltage := mv_no2, nitrate_voltage := mv_no3\<rparr>;
                      b = a\<lparr>temperature_nn := tempC\<rparr>;
                      c = b\<lparr>ph_value := 7.0, conductivity := 500.0\<rparr>;
                      e = calculateConcentrations (config st) (calibration_nn st) c;
                      f = applyTemperatureCompensation (config st) e
                  in applyCrossSensorCompensation (config st) f);
          d2 = d1\<lparr>valid :=
                 (nitrite_concentration d1 \<ge> 0 \<and> nitrite_concentration d1 \<le> 100 \<and>
                  nitrate_concentration d1 \<ge> 0 \<and> nitrate_concentration d1 \<le> 1000 \<and>
                  temperature_nn d1 > -10 \<and> temperature_nn d1 < 50)\<rparr>
      in
        if valid d2 then
          let st1 = st\<lparr>consecutiveErrors_nn := 0\<rparr>;
              d3 = d2\<lparr>quality_score := calculateQualityScore (calibration_nn st1) now d2\<rparr>;
              st2 = publishData d3 st1;
              st3 = handleAlarms d3 st2
          in (d3, st3)
        else (d2, st\<lparr>consecutiveErrors_nn := consecutiveErrors_nn st + 1\<rparr>))"

section \<open>TOC/BOD sensor module: sample preparation\<close>

text \<open>Names that clash with the other sketches carry the suffix \<open>_toc\<close>.\<close>

datatype SampleState = IDLE | SAMPLING | HEATING | MEASURING | CLEANING

record TocBodState =
  currentState :: SampleState
  stateStartTime :: "32 word"
  lastTOC :: real
  lastBOD :: real
  lastTemperature :: real
  sensorHealthy_toc :: bool
  consecutiveErrors_toc :: int
  SAMPLE_VALVE_PIN :: bool
  HEATER_PIN :: bool
  REAGENT_PUMP_PIN :: bool
  alerts_toc :: "(string \<times> real) list"


definition BOD_TEMPERATURE_COEFFICIENT :: real where "BOD_TEMPERATURE_COEFFICIENT = 0.02"

definition applyTemperatureCompensation_toc :: "real \<Rightarrow> real \<Rightarrow> bool \<Rightarrow> real" where
  "applyTemperatureCompensation_toc v temp isTOC =
     (let referenceTemp = 20.0;
          coefficient = (if isTOC then 0.01 else BOD_TEMPERATURE_COEFFICIENT);
          compensation = 1.0 + coefficient * (temp - referenceTemp)
      in v * compensation)"

definition isValidReading :: "real \<Rightarrow> real \<Rightarrow> real \<Rightarrow> bool" where
  "isValidReading toc bod temp =
     (toc \<ge> 0.0 \<and> toc \<le> 1000.0 \<and> bod \<ge> 0.0 \<and> bod \<le> 500.0 \<and> temp \<ge> 0.0 \<and> temp \<le> 50.0)"

text \<open>\<open>checkAlerts\<close> with the default thresholds (50, 100, 30, 60) of the globals.\<close>

definition checkAlerts :: "real \<Rightarrow> real \<Rightarrow> TocBodState \<Rightarrow> TocBodState" where
  "checkAlerts toc bod s =
     (let a1 = (if toc > 100.0 then [(''CRITICAL_TOC'', toc)]
                else if toc > 50.0 then [(''HIGH_TOC'', toc)] else []);
          a2 = (if bod > 60.0 then [(''CRITICAL_BOD'', bod)]
                else if bod > 30.0 then [(''HIGH_BOD'', bod)] else []);
          a3 = (if \<bar>toc - lastTOC s\<bar> > 20.0 then [(''RAPID_TOC_CHANGE'', toc)] else []);
          a4 = (if \<bar>bod - lastBOD s\<bar> > 10.0 then [(''RAPID_BOD_CHANGE'', bod)] else []);
          a5 = (if toc > 30.0 \<and> bod > 20.0 then [(''HIGH_ORGANIC_LOAD'', toc + bod)] else [])
      in s\<lparr>alerts_toc := alerts_toc s @ a1 @ a2 @ a3 @ a4 @ a5\<rparr>)"

definition handleSensorError :: "TocBodState \<Rightarrow> TocBodState" where
  "handleSensorError s =
     (let s1 = s\<lparr>consecutiveErrors_toc := consecutiveErrors_toc s + 1\<rparr>;
          s2 = s1\<lparr>sensorHealthy_toc := (consecutiveErrors_toc s1 < 3)\<rparr>
      in if consecutiveErrors_toc s2 \<ge> 5 then
           s2\<lparr>currentState := IDLE, SAMPLE_VALVE_PIN := False, REAGENT_PUMP_PIN := False,
              HEATER_PIN := False, consecutiveErrors_toc := 0\<rparr>
         else s2)"

text \<open>
  \<open>takeMeasurement\<close>: \<open>toc0\<close>, \<open>bod0\<close> and \<open>temp\<close> are the values read (or generated in dummy
  mode) before temperature compensation.
\<close>

definition takeMeasurement :: "real \<Rightarrow> real \<Rightarrow> real \<Rightarrow> TocBodState \<Rightarrow> TocBodState" where
  "takeMeasurement toc0 bod0 temp s =
     (let toc = applyTemperatureCompensation_toc toc0 temp True;
          bod = applyTemperatureCompensation_toc bod0 temp False
      in if isValidReading toc bod temp then
           checkAlerts toc bod
             (s\<lparr>lastTOC := toc, lastBOD := bod, lastTemperature := temp,
                sensorHealthy_toc := True, consecutiveErrors_toc := 0\<rparr>)
         else handleSensorError s)"









section \<open>Concrete states used in the examples\<close>

definition exampleCalibration :: CalibrationData where
  "exampleCalibration =
     \<lparr>isValid = True, slope = -59, intercept = 200, standards = [1, 10, 100],
      voltages = [200, 141, 82], calibrationDate = 1000, correlationCoeff = -1\<rparr>"

definition exampleReading :: AmmoniaData where
  "exampleReading =
     \<lparr>totalAmmonia = 0, freeAmmonia = 0, ammonium = 0, pH = 0, temperature = 0, rawVoltage = 0,
      electrodeSlope = 0, timestamp = 0, toxicityLevel = [], dataValid = False\<rparr>"

definition exampleEEPROM :: EEPROM where
  "exampleEEPROM =
     \<lparr>at_CALIB_VALID_ADDR = True, at_CALIB_SLOPE_ADDR = -59, at_CALIB_INTERCEPT_ADDR = 200,
      at_CALIB_DATE_ADDR = 1000\<rparr>"

definition exampleState :: AmmoniaState where
  "exampleState =
     \<lparr>currentReading = exampleReading, calibration = exampleCalibration,
      ammoniaBuffer = [0, 0, 0, 0, 0, 0, 0, 0, 0, 0], bufferIndex = 0,
      rtcData = \<lparr>bootCount = 1, lastTotalAmmonia = 0, lastFreeAmmonia = 0, lastpH = 0,
                 lastTemp = 0, toxicAlert = False\<rparr>,
      eeprom = exampleEEPROM\<rparr>"

text \<open>
  A store whose flag is set, holding a slope of -59 mV per decade in volts, and the
  state of the sketch after a restart that loaded it.
\<close>

definition exampleStoredEEPROM :: EEPROM where
  "exampleStoredEEPROM =
     \<lparr>at_CALIB_VALID_ADDR = True, at_CALIB_SLOPE_ADDR = -0.059, at_CALIB_INTERCEPT_ADDR = 0,
      at_CALIB_DATE_ADDR = 1000\<rparr>"

definition exampleRestartedState :: AmmoniaState where
  "exampleRestartedState =
     exampleState\<lparr>calibration := loadCalibrationData exampleStoredEEPROM zeroCalibration,
                  eeprom := exampleStoredEEPROM\<rparr>"

text \<open>Ten equal values of \<open>analogRead\<close>, and three calibration runs built from them.\<close>

definition steadyReadings :: "int \<Rightarrow> int list" where
  "steadyReadings raw = [raw, raw, raw, raw, raw, raw, raw, raw, raw, raw]"

definition exampleRunReadings :: "nat \<Rightarrow> int list" where
  "exampleRunReadings i =
     steadyReadings (if i = 0 then 1365 else if i = 1 then 4095 else 2730)"


definition constantRunReadings :: "nat \<Rightarrow> int list" where
  "constantRunReadings i = steadyReadings 1365"

definition exampleUncalibratedState :: AmmoniaState where
  "exampleUncalibratedState = exampleState\<lparr>calibration := zeroCalibration\<rparr>"

definition exampleMeasurementData :: MeasurementData where
  "exampleMeasurementData =
     \<lparr>nitrite_voltage = 0, nitrate_voltage = 0, nitrite_concentration = 0,
      nitrate_concentration = 0, temperature_nn = 0, ph_value = 0, conductivity = 0,
      timestamp_nn = 0, valid = False, quality_score = 0\<rparr>"

definition exampleDraws :: RandomDraws where
  "exampleDraws =
     \<lparr>rnd_no2 = 10, rnd_no3 = 20, rnd_temp = 5, rnd_no2_mv = 0, rnd_no3_mv = 0, rnd_ph = 0,
      rnd_cond = 0, rnd_quality = 3\<rparr>"

definition exampleNitriteCalibration :: CalibrationData_nn where
  "exampleNitriteCalibration =
     \<lparr>nitrite_standards = [0.1, 1.0, 10.0], nitrate_standards = [1.0, 10.0, 100.0],
      nitrite_voltages = [0, 0, 0], nitrate_voltages = [0, 0, 0],
      calibrated = False, last_calibration = 0\<rparr>"

definition exampleNitriteState :: NitriteState where
  "exampleNitriteState =
     \<lparr>config = defaultSensorConfig, calibration_nn = exampleNitriteCalibration,
      sensorHealthy_nn = True, consecutiveErrors_nn = 0, mqtt_out = [], alerts_out = []\<rparr>"

definition exampleDummyNitriteState :: NitriteState where
  "exampleDummyNitriteState =
     exampleNitriteState\<lparr>config := defaultSensorConfig\<lparr>dummy_mode := True\<rparr>\<rparr>"

definition exampleColdNitriteState :: NitriteState where
  "exampleColdNitriteState =
     exampleNitriteState\<lparr>config := defaultSensorConfig\<lparr>temp_coefficient := 3 / 76\<rparr>\<rparr>"

text \<open>The invariant of the averaging loop of \<open>readISEVoltage\<close>.\<close>

definition sumWithinRange :: "real \<times> nat \<Rightarrow> bool" where
  "sumWithinRange acc = (0 \<le> fst acc \<and> fst acc \<le> 3.3 * real (snd acc))"

section \<open>Properties of the ammonia module\<close>

lemmas ammonia_consts =
  CALIBRATION_POINTS_def MAX_READINGS_BUFFER_def AMMONIA_MIN_RANGE_def AMMONIA_MAX_RANGE_def
  MIN_ACCEPTABLE_SLOPE_def MAX_ACCEPTABLE_SLOPE_def CALIB_STANDARD_1_def CALIB_STANDARD_2_def
  CALIB_STANDARD_3_def PKA_25C_def TEMP_COEFF_def REFERENCE_TEMP_def
  TOXIC_WARNING_THRESHOLD_def TOXIC_CRITICAL_THRESHOLD_def TOXIC_ACUTE_THRESHOLD_def

lemmas example_defs = exampleCalibration_def exampleReading_def exampleEEPROM_def exampleState_def

lemma upt3: "[0..<3] = [0, 1, 2]" by (simp add: upt_rec)
lemma upt10: "[0..<10] = [0, 1, 2, 3, 4, 5, 6, 7, 8, 9]" by (simp add: upt_rec)

subsection \<open>Readings that come from the electrode input\<close>

lemma readISEVoltage_body_keeps_range:
  assumes "sumWithinRange acc"
  shows "sumWithinRange (readISEVoltage_body x acc)"
proof (cases "(real_of_int x * 3.3) / 4095.0 \<ge> 0.0 \<and> (real_of_int x * 3.3) / 4095.0 \<le> 3.3")
  case True
  define v where "v = (real_of_int x * 3.3) / 4095.0"
  have vr: "0 \<le> v" "v \<le> 3.3" using True unfolding v_def by simp_all
  have step: "readISEVoltage_body x acc = (fst acc + v, snd acc + 1)"
    unfolding readISEVoltage_body_def Let_def v_def using True by simp
  have "0 \<le> fst acc + v" using assms vr unfolding sumWithinRange_def by linarith
  moreover have "fst acc + v \<le> 3.3 * real (snd acc + 1)"
    using assms vr unfolding sumWithinRange_def by (simp add: algebra_simps)
  ultimately show ?thesis unfolding step sumWithinRange_def by simp
next
  case False
  have "readISEVoltage_body x acc = acc"
    unfolding readISEVoltage_body_def Let_def by (simp only: False if_False)
  then show ?thesis using assms by simp
qed

lemma readISEVoltage_fold_keeps_range:
  "sumWithinRange acc \<Longrightarrow> sumWithinRange (fold readISEVoltage_body rs acc)"
  by (induction rs arbitrary: acc) (simp_all add: readISEVoltage_body_keeps_range)

lemma readISEVoltage_range: "0 \<le> readISEVoltage rs" "readISEVoltage rs \<le> 3.3"
proof -
  define acc where "acc = fold readISEVoltage_body (take 10 rs) (0, 0)"
  have "sumWithinRange (0, 0)" by (simp add: sumWithinRange_def)
  then have "sumWithinRange acc" unfolding acc_def by (rule readISEVoltage_fold_keeps_range)
  then have bounds: "0 \<le> fst acc" "fst acc \<le> 3.3 * real (snd acc)"
    unfolding sumWithinRange_def by simp_all
  have r: "readISEVoltage rs = (if snd acc > 0 then fst acc / real (snd acc) else 0)"
    unfolding readISEVoltage_def acc_def Let_def by simp
  show "0 \<le> readISEVoltage rs" unfolding r using bounds by simp
  show "readISEVoltage rs \<le> 3.3"
  proof (cases "snd acc > 0")
    case True
    then have "fst acc / real (snd acc) \<le> 3.3"
      using bounds by (simp add: pos_divide_le_eq)
    then show ?thesis unfolding r using True by simp
  next
    case False
    then show ?thesis unfolding r by simp
  qed
qed

lemma readISEVoltage_steady:
  assumes "0 \<le> raw" "raw \<le> 4095"
  shows "readISEVoltage (steadyReadings raw) = real_of_int raw * 11 / 13650"
proof -
  have v: "0 \<le> real_of_int raw * 3.3 / 4095.0 \<and> real_of_int raw * 3.3 / 4095.0 \<le> 3.3"
    using assms by simp
  have b: "readISEVoltage_body raw acc = (fst acc + real_of_int raw * 3.3 / 4095.0, snd acc + 1)"
    for acc
    unfolding readISEVoltage_body_def Let_def using v by simp
  show ?thesis
    unfolding readISEVoltage_def steadyReadings_def Let_def by (simp add: b)
qed

subsection \<open>Free-ammonia fraction and toxicity band\<close>

lemma ten_powr_quarter_bounds:
  "0.562 < (10::real) powr (- (1/4))" "(10::real) powr (- (1/4)) < 0.563"
proof -
  define y :: real where "y = 10 powr (- (1/4))"
  have ypos: "0 < y" by (simp add: y_def)
  have "y ^ 4 = 10 powr (of_nat 4 * (- (1/4)))"
    unfolding y_def by (rule powr_power) simp
  then have y4: "y ^ 4 = 1 / 10" by (simp add: powr_minus_divide)
  have "0.562 < y"
  proof (rule ccontr)
    assume "\<not> 0.562 < y"
    then have "y \<le> 0.562" by simp
    then have "y ^ 4 \<le> 0.562 ^ 4" using ypos by (intro power_mono) simp_all
    then show False using y4 by (simp add: power4_eq_xxxx)
  qed
  moreover have "y < 0.563"
  proof (rule ccontr)
    assume "\<not> y < 0.563"
    then have "0.563 \<le> y" by simp
    then have "0.563 ^ 4 \<le> y ^ 4" by (intro power_mono) simp_all
    then show False using y4 by (simp add: power4_eq_xxxx)
  qed
  ultimately show "0.562 < (10::real) powr (- (1/4))" "(10::real) powr (- (1/4)) < 0.563"
    by (simp_all add: y_def)
qed

lemma scenario_B_fraction:
  "calculateFreeAmmoniaFraction 9.5 25 = 1 / (1 + 10 powr (- (1/4)))"
  by (simp add: calculateFreeAmmoniaFraction_def ammonia_consts)

lemma scenario_B_bounds:
  "0.6397 < calculateFreeAmmoniaFraction 9.5 25" "calculateFreeAmmoniaFraction 9.5 25 < 0.6403"
proof -
  let ?y = "(10::real) powr (- (1/4))"
  have pos: "0 < 1 + ?y" by (simp add: add_pos_nonneg)
  have "0.6397 * (1 + ?y) < 1" using ten_powr_quarter_bounds(2) by simp
  then show "0.6397 < calculateFreeAmmoniaFraction 9.5 25"
    unfolding scenario_B_fraction using pos by (simp add: pos_less_divide_eq)
  have "1 < 0.6403 * (1 + ?y)" using ten_powr_quarter_bounds(1) by simp
  then show "calculateFreeAmmoniaFraction 9.5 25 < 0.6403"
    unfolding scenario_B_fraction using pos by (simp add: pos_divide_less_eq)
qed

text \<open>
  C5. For every pH \<open>p\<close> and temperature \<open>T\<close> the computed free-ammonia fraction is
  \<open>1 / (1 + 10^(pKa - p))\<close> with \<open>pKa = 9.25 + 0.0324 * (T - 25)\<close>. At \<open>p = 9.5\<close>,
  \<open>T = 25\<close> and a total of 1.0 mg/L the free ammonia lies within 0.001 of 0.640 mg/L and
  \<open>assessToxicity\<close> returns CRITICAL, which it returns exactly on the band [0.5, 2.0).
\<close>

theorem free_ammonia_fraction_and_scenario_B:
  "calculateFreeAmmoniaFraction p T = 1 / (1 + 10 powr ((9.25 + 0.0324 * (T - 25)) - p))
   \<and> \<bar>1.0 * calculateFreeAmmoniaFraction 9.5 25 - 0.640\<bar> < 0.001
   \<and> assessToxicity (1.0 * calculateFreeAmmoniaFraction 9.5 25) = ''CRITICAL''
   \<and> (assessToxicity x = ''CRITICAL'') = (0.5 \<le> x \<and> x < 2.0)"
proof -
  have formula: "calculateFreeAmmoniaFraction p T = 1 / (1 + 10 powr ((9.25 + 0.0324 * (T - 25)) - p))"
    by (simp add: calculateFreeAmmoniaFraction_def ammonia_consts)
  have band: "(assessToxicity x = ''CRITICAL'') = (0.5 \<le> x \<and> x < 2.0)"
    by (simp add: assessToxicity_def ammonia_consts)
  have "1.0 * calculateFreeAmmoniaFraction 9.5 25 - 0.640 < 0.001"
    using scenario_B_bounds(2) by simp
  moreover have "- (1.0 * calculateFreeAmmoniaFraction 9.5 25 - 0.640) < 0.001"
    using scenario_B_bounds(1) by simp
  ultimately have near: "\<bar>1.0 * calculateFreeAmmoniaFraction 9.5 25 - 0.640\<bar> < 0.001"
    unfolding abs_less_iff by blast
  have crit: "assessToxicity (1.0 * calculateFreeAmmoniaFraction 9.5 25) = ''CRITICAL''"
    using scenario_B_bounds by (simp add: assessToxicity_def ammonia_consts)
  show ?thesis using formula near crit band by blast
qed

subsection \<open>Nernst inversion with temperature-scaled slope\<close>

text \<open>
  C4. With a valid stored calibration of slope \<open>s\<close> and intercept \<open>b\<close>, the concentration
  computed from raw signal \<open>v\<close> at temperature \<open>T\<close> (in degrees Celsius) is
  \<open>10^((v - b) / s_T)\<close> with \<open>s_T = s * ((T + 273.15) / (25 + 273.15))\<close>.
\<close>

theorem loglinear_concentration:
  assumes "isValid cal"
  shows "calculateAmmoniaConcentration cal v T =
           10 powr ((v - intercept cal) / (slope cal * ((T + 273.15) / (25 + 273.15))))"
proof -
  have e: "slope cal * (T + 273.15) / (REFERENCE_TEMP + 273.15)
             = slope cal * ((T + 273.15) / (25 + 273.15))"
    by (simp add: REFERENCE_TEMP_def)
  show ?thesis
    unfolding calculateAmmoniaConcentration_def Let_def e using assms by (simp only: not_True_eq_False if_False)
qed

theorem loglinear_concentration_witness:
  "isValid exampleCalibration \<and> calculateAmmoniaConcentration exampleCalibration 141 25 = 10"
proof -
  have v: "isValid exampleCalibration" by (simp add: exampleCalibration_def)
  show ?thesis using v loglinear_concentration [OF v, of 141 25]
    by (simp add: exampleCalibration_def)
qed

subsection \<open>Speciation against the rolling average\<close>

lemma restarted_total_is_one:
  "calculateAmmoniaConcentration (calibration exampleRestartedState)
     (readISEVoltage (steadyReadings 0)) T = 1"
  by (simp add: calculateAmmoniaConcentration_def exampleRestartedState_def
      loadCalibrationData_def exampleStoredEEPROM_def readISEVoltage_steady)

text \<open>
  C10. In every ammonia measurement accepted as in range, \<open>freeAmmonia\<close> is the
  instantaneous total of the cycle times the free-ammonia fraction and \<open>ammonium\<close> is the
  instantaneous total times one minus that fraction, so that (in real arithmetic) the
  two sum to the instantaneous total. The instantaneous total is written into the current
  slot of the buffer, the index moves on by one modulo 10 and the buffer keeps its
  length; the published \<open>totalAmmonia\<close> is the average of the ten slots after that write.
  The sum of the two species equals the published field exactly when that average
  coincides with the instantaneous total. The toxicity level is assessed on the
  instantaneous free ammonia.
\<close>

theorem speciation_uses_instantaneous_total:
  assumes tot_def: "tot = calculateAmmoniaConcentration (calibration st) v (readTemperature tempRaw)"
      and f_def: "f = calculateFreeAmmoniaFraction (readPH phRaw) (readTemperature tempRaw)"
      and st': "st' = takeAmmoniaMeasurement tempRaw phRaw v now st"
      and inrange: "AMMONIA_MIN_RANGE \<le> tot" "tot \<le> AMMONIA_MAX_RANGE"
  shows "dataValid (currentReading st')
       \<and> freeAmmonia (currentReading st') = tot * f
       \<and> ammonium (currentReading st') = tot * (1 - f)
       \<and> freeAmmonia (currentReading st') + ammonium (currentReading st') = tot
       \<and> ammoniaBuffer st' = (ammoniaBuffer st)[bufferIndex st := tot]
       \<and> length (ammoniaBuffer st') = length (ammoniaBuffer st)
       \<and> bufferIndex st' = (bufferIndex st + 1) mod 10
       \<and> totalAmmonia (currentReading st')
            = sum_list (map (\<lambda>i. ammoniaBuffer st' ! i) [0..<10]) / 10
       \<and> toxicityLevel (currentReading st') = assessToxicity (tot * f)
       \<and> lastTotalAmmonia (rtcData st') = tot
       \<and> lastFreeAmmonia (rtcData st') = tot * f
       \<and> (freeAmmonia (currentReading st') + ammonium (currentReading st')
            = totalAmmonia (currentReading st'))
          = (totalAmmonia (currentReading st') = tot)"
proof -
  have acc: "st' = (let buf = (ammoniaBuffer st)[bufferIndex st := tot] in
        st\<lparr>ammoniaBuffer := buf,
                bufferIndex := (bufferIndex st + 1) mod MAX_READINGS_BUFFER,
                currentReading :=
                  \<lparr>totalAmmonia = sum_list (map (\<lambda>i. buf ! i) [0..<MAX_READINGS_BUFFER]) / real MAX_READINGS_BUFFER,
                   freeAmmonia = tot * f,
                   ammonium = tot * (1.0 - f),
                   pH = readPH phRaw,
                   temperature = readTemperature tempRaw,
                   rawVoltage = v,
                   electrodeSlope = slope (calibration st),
                   timestamp = now,
                   toxicityLevel = assessToxicity (tot * f),
                   dataValid = True\<rparr>,
                rtcData :=
                  (rtcData st)\<lparr>lastTotalAmmonia := tot,
                                lastFreeAmmonia := tot * f,
                                lastpH := readPH phRaw,
                                lastTemp := readTemperature tempRaw,
                                toxicAlert := (tot * f \<ge> TOXIC_WARNING_THRESHOLD)\<rparr>\<rparr>)"
    using inrange unfolding st' takeAmmoniaMeasurement_def tot_def f_def Let_def by simp
  have fr: "freeAmmonia (currentReading st') = tot * f" unfolding acc Let_def by simp
  have am: "ammonium (currentReading st') = tot * (1 - f)" unfolding acc Let_def by simp
  have sum: "freeAmmonia (currentReading st') + ammonium (currentReading st') = tot"
    unfolding fr am by (simp add: algebra_simps)
  have dv: "dataValid (currentReading st')" unfolding acc Let_def by simp
  have bf: "ammoniaBuffer st' = (ammoniaBuffer st)[bufferIndex st := tot]"
    unfolding acc Let_def by simp
  have ln: "length (ammoniaBuffer st') = length (ammoniaBuffer st)" unfolding bf by simp
  have ix: "bufferIndex st' = (bufferIndex st + 1) mod 10"
    unfolding acc Let_def by (simp add: MAX_READINGS_BUFFER_def)
  have av: "totalAmmonia (currentReading st')
            = sum_list (map (\<lambda>i. ammoniaBuffer st' ! i) [0..<10]) / 10"
    unfolding acc Let_def by (simp add: MAX_READINGS_BUFFER_def)
  have tx: "toxicityLevel (currentReading st') = assessToxicity (tot * f)"
    unfolding acc Let_def by simp
  have lt: "lastTotalAmmonia (rtcData st') = tot" unfolding acc Let_def by simp
  have lf: "lastFreeAmmonia (rtcData st') = tot * f" unfolding acc Let_def by simp
  have eq: "(freeAmmonia (currentReading st') + ammonium (currentReading st')
            = totalAmmonia (currentReading st'))
          = (totalAmmonia (currentReading st') = tot)"
    unfolding sum by auto
  show ?thesis using dv fr am sum bf ln ix av tx lt lf eq by blast
qed

theorem speciation_uses_instantaneous_total_witness:
  "AMMONIA_MIN_RANGE \<le> 1 \<and> 1 \<le> AMMONIA_MAX_RANGE
   \<and> freeAmmonia (currentReading
        (takeAmmoniaMeasurement 25 7 (readISEVoltage (steadyReadings 0)) 5 exampleRestartedState))
       = 1 * calculateFreeAmmoniaFraction (readPH 7) (readTemperature 25)
   \<and> freeAmmonia (currentReading
        (takeAmmoniaMeasurement 25 7 (readISEVoltage (steadyReadings 0)) 5 exampleRestartedState))
       + ammonium (currentReading
        (takeAmmoniaMeasurement 25 7 (readISEVoltage (steadyReadings 0)) 5 exampleRestartedState))
       = 1
   \<and> bufferIndex
        (takeAmmoniaMeasurement 25 7 (readISEVoltage (steadyReadings 0)) 5 exampleRestartedState) = 1
   \<and> totalAmmonia (currentReading
        (takeAmmoniaMeasurement 25 7 (readISEVoltage (steadyReadings 0)) 5 exampleRestartedState))
       = 1 / 10"
proof -
  have t: "(1::real) = calculateAmmoniaConcentration (calibration exampleRestartedState)
             (readISEVoltage (steadyReadings 0)) (readTemperature 25)"
    by (simp add: restarted_total_is_one)
  have r: "AMMONIA_MIN_RANGE \<le> 1" "1 \<le> AMMONIA_MAX_RANGE"
    by (simp_all add: ammonia_consts)
  note th = speciation_uses_instantaneous_total [OF t refl refl r, of 7 5]
  have b0: "ammoniaBuffer exampleRestartedState = [0, 0, 0, 0, 0, 0, 0, 0, 0, 0]"
    "bufferIndex exampleRestartedState = 0"
    by (simp_all add: exampleRestartedState_def exampleState_def)
  from th b0 have buf: "ammoniaBuffer
        (takeAmmoniaMeasurement 25 7 (readISEVoltage (steadyReadings 0)) 5 exampleRestartedState)
        = [1, 0, 0, 0, 0, 0, 0, 0, 0, 0]"
    by simp
  from th buf have avg: "totalAmmonia (currentReading
        (takeAmmoniaMeasurement 25 7 (readISEVoltage (steadyReadings 0)) 5 exampleRestartedState))
       = 1 / 10"
    by (simp add: upt10)
  from th b0 have ix: "bufferIndex
        (takeAmmoniaMeasurement 25 7 (readISEVoltage (steadyReadings 0)) 5 exampleRestartedState) = 1"
    by simp
  from th avg ix r show ?thesis by simp
qed

section \<open>Properties of the calibration engine\<close>

subsection \<open>The least-squares fit on three points\<close>

lemma logs: "log 10 (1::real) = 0" "log 10 (10::real) = 1" "log 10 (100::real) = 2"
proof -
  have "log 10 ((10::real) ^ 2) = real 2" by (rule log_pow_cancel) simp_all
  then show "log 10 (100::real) = 2" by simp
qed simp_all

lemma standard_values:
  "CALIB_STANDARD_1 = 1" "CALIB_STANDARD_2 = 10" "CALIB_STANDARD_3 = 100"
  by (simp_all add: ammonia_consts)

text \<open>The fit written out for three points.\<close>

lemma calculateCalibrationCurve_three:
  "calculateCalibrationCurve [c1, c2, c3] [v1, v2, v3] cal =
     (let x1 = log 10 c1; x2 = log 10 c2; x3 = log 10 c3;
          sumX = x1 + x2 + x3; sumY = v1 + v2 + v3;
          sumXY = x1 * v1 + x2 * v2 + x3 * v3;
          sumX2 = x1 * x1 + x2 * x2 + x3 * x3;
          sumY2 = v1 * v1 + v2 * v2 + v3 * v3;
          sl = (3 * sumXY - sumX * sumY) / (3 * sumX2 - sumX * sumX);
          den = sqrt ((3 * sumX2 - sumX * sumX) * (3 * sumY2 - sumY * sumY))
      in cal\<lparr>slope := sl, intercept := (sumY - sl * sumX) / 3,
              correlationCoeff := (if den \<noteq> 0 then (3 * sumXY - sumX * sumY) / den else 0)\<rparr>)"
  by (simp add: calculateCalibrationCurve_def CALIBRATION_POINTS_def upt3 Let_def add.assoc)

lemma fit_standard_points:
  fixes v1 v2 v3 :: real
  defines "fit \<equiv> calculateCalibrationCurve
                      [CALIB_STANDARD_1, CALIB_STANDARD_2, CALIB_STANDARD_3] [v1, v2, v3]"
  shows "slope (fit cal) = (v3 - v1) / 2"
    and "intercept (fit cal) = (v1 + v2 + v3 - (v3 - v1) / 2 * 3) / 3"
    and "correlationCoeff (fit cal) =
           (if sqrt (6 * (3 * (v1 * v1 + v2 * v2 + v3 * v3) - (v1 + v2 + v3) * (v1 + v2 + v3))) \<noteq> 0
            then (3 * (v3 - v1)) /
                 sqrt (6 * (3 * (v1 * v1 + v2 * v2 + v3 * v3) - (v1 + v2 + v3) * (v1 + v2 + v3)))
            else 0)"
    and "isValid (fit cal) = isValid cal" and "standards (fit cal) = standards cal"
    and "voltages (fit cal) = voltages cal" and "calibrationDate (fit cal) = calibrationDate cal"
proof -
  have num: "3 * (0 * v1 + 1 * v2 + 2 * v3) - (0 + 1 + 2) * (v1 + v2 + v3) = 3 * (v3 - v1)"
    by (simp add: algebra_simps)
  have den: "3 * ((0::real) * 0 + 1 * 1 + 2 * 2) - (0 + 1 + 2) * (0 + 1 + 2) = 6" by simp
  have unf: "fit cal =
      cal\<lparr>slope := (3 * (0 * v1 + 1 * v2 + 2 * v3) - (0 + 1 + 2) * (v1 + v2 + v3))
                      / (3 * ((0::real) * 0 + 1 * 1 + 2 * 2) - (0 + 1 + 2) * (0 + 1 + 2)),
          intercept := (v1 + v2 + v3 -
                 (3 * (0 * v1 + 1 * v2 + 2 * v3) - (0 + 1 + 2) * (v1 + v2 + v3))
                      / (3 * ((0::real) * 0 + 1 * 1 + 2 * 2) - (0 + 1 + 2) * (0 + 1 + 2)) * (0 + 1 + 2)) / 3,
          correlationCoeff :=
            (if sqrt ((3 * ((0::real) * 0 + 1 * 1 + 2 * 2) - (0 + 1 + 2) * (0 + 1 + 2)) *
                      (3 * (v1 * v1 + v2 * v2 + v3 * v3) - (v1 + v2 + v3) * (v1 + v2 + v3))) \<noteq> 0
             then (3 * (0 * v1 + 1 * v2 + 2 * v3) - (0 + 1 + 2) * (v1 + v2 + v3)) /
                  sqrt ((3 * ((0::real) * 0 + 1 * 1 + 2 * 2) - (0 + 1 + 2) * (0 + 1 + 2)) *
                      (3 * (v1 * v1 + v2 * v2 + v3 * v3) - (v1 + v2 + v3) * (v1 + v2 + v3)))
             else 0)\<rparr>"
    unfolding fit_def standard_values calculateCalibrationCurve_three Let_def
    by (simp only: logs)
  show "slope (fit cal) = (v3 - v1) / 2" unfolding unf num den by simp
  show "intercept (fit cal) = (v1 + v2 + v3 - (v3 - v1) / 2 * 3) / 3" unfolding unf num den by simp
  show "correlationCoeff (fit cal) =
           (if sqrt (6 * (3 * (v1 * v1 + v2 * v2 + v3 * v3) - (v1 + v2 + v3) * (v1 + v2 + v3))) \<noteq> 0
            then (3 * (v3 - v1)) /
                 sqrt (6 * (3 * (v1 * v1 + v2 * v2 + v3 * v3) - (v1 + v2 + v3) * (v1 + v2 + v3)))
            else 0)"
    unfolding unf num den by simp
  show "isValid (fit cal) = isValid cal" "standards (fit cal) = standards cal"
    "voltages (fit cal) = voltages cal" "calibrationDate (fit cal) = calibrationDate cal"
    unfolding unf by simp_all
qed


lemma log10_distinct:
  assumes "0 < (c::real)" "0 < d" "c \<noteq> d"
  shows "log 10 c \<noteq> log 10 d"
proof -
  from assms(3) consider "c < d" | "d < c" by linarith
  then show ?thesis
  proof cases
    case 1
    then have "log 10 c < log 10 d" using assms by (simp add: log_less_cancel_iff)
    then show ?thesis by simp
  next
    case 2
    then have "log 10 d < log 10 c" using assms by (simp add: log_less_cancel_iff)
    then show ?thesis by simp
  qed
qed

lemma spread_positive:
  fixes x1 x2 x3 :: real
  assumes "x1 \<noteq> x2"
  shows "0 < 3 * (x1 * x1 + x2 * x2 + x3 * x3) - (x1 + x2 + x3) * (x1 + x2 + x3)"
proof -
  have e: "3 * (x1 * x1 + x2 * x2 + x3 * x3) - (x1 + x2 + x3) * (x1 + x2 + x3)
         = (x1 - x2)\<^sup>2 + ((x1 - x3)\<^sup>2 + (x2 - x3)\<^sup>2)"
    by (simp add: power2_eq_square algebra_simps)
  have "0 < (x1 - x2)\<^sup>2" using assms by simp
  moreover have "0 \<le> (x1 - x3)\<^sup>2 + (x2 - x3)\<^sup>2" by simp
  ultimately show ?thesis unfolding e by linarith
qed

lemma exact_line_fit:
  fixes p q r k m :: real
  defines "sumX \<equiv> p + q + r"
      and "sumY \<equiv> (k * p + m) + (k * q + m) + (k * r + m)"
      and "sumXY \<equiv> p * (k * p + m) + q * (k * q + m) + r * (k * r + m)"
      and "sumX2 \<equiv> p * p + q * q + r * r"
      and "sumY2 \<equiv> (k * p + m) * (k * p + m) + (k * q + m) * (k * q + m) + (k * r + m) * (k * r + m)"
  assumes ne: "p \<noteq> q"
  shows "(3 * sumXY - sumX * sumY) / (3 * sumX2 - sumX * sumX) = k"
    and "(sumY - k * sumX) / 3 = m"
    and "sqrt ((3 * sumX2 - sumX * sumX) * (3 * sumY2 - sumY * sumY)) = \<bar>k\<bar> * (3 * sumX2 - sumX * sumX)"
    and "3 * sumXY - sumX * sumY = k * (3 * sumX2 - sumX * sumX)"
    and "0 < 3 * sumX2 - sumX * sumX"
proof -
  define D where "D = 3 * sumX2 - sumX * sumX"
  have Dpos: "0 < D" unfolding D_def sumX2_def sumX_def using ne by (rule spread_positive)
  have N: "3 * sumXY - sumX * sumY = k * D"
    unfolding D_def sumXY_def sumX_def sumY_def sumX2_def by (simp add: algebra_simps)
  have S: "3 * sumY2 - sumY * sumY = k * k * D"
    unfolding D_def sumX_def sumY_def sumX2_def sumY2_def by (simp add: algebra_simps)
  show "(3 * sumXY - sumX * sumY) / (3 * sumX2 - sumX * sumX) = k"
    unfolding N unfolding D_def [symmetric] using Dpos by simp
  show "(sumY - k * sumX) / 3 = m"
    unfolding sumY_def sumX_def by (simp add: algebra_simps)
  have "D * (k * k * D) = (k * D) * (k * D)" by (simp add: algebra_simps)
  then have "sqrt (D * (3 * sumY2 - sumY * sumY)) = \<bar>k * D\<bar>"
    unfolding S by (simp only: real_sqrt_abs2)
  also have "\<dots> = \<bar>k\<bar> * D" using Dpos by (simp add: abs_mult)
  finally show "sqrt ((3 * sumX2 - sumX * sumX) * (3 * sumY2 - sumY * sumY)) = \<bar>k\<bar> * (3 * sumX2 - sumX * sumX)"
    unfolding D_def .
  show "3 * sumXY - sumX * sumY = k * (3 * sumX2 - sumX * sumX)" using N unfolding D_def .
  show "0 < 3 * sumX2 - sumX * sumX" using Dpos unfolding D_def .
qed


text \<open>The fit of exactly log-linear data, for any three positive distinct standards.\<close>

lemma loglinear_fit:
  fixes c1 c2 c3 a b :: real
  assumes pos: "0 < c1" "0 < c2" "0 < c3"
      and dist: "c1 \<noteq> c2" "c1 \<noteq> c3" "c2 \<noteq> c3"
      and fitted: "fitted = calculateCalibrationCurve [c1, c2, c3]
                     [a * log 10 c1 + b, a * log 10 c2 + b, a * log 10 c3 + b] cal"
  shows "slope fitted = a" and "intercept fitted = b" and "correlationCoeff fitted = sgn a"
proof -
  define x1 x2 x3 where "x1 = log 10 c1" and "x2 = log 10 c2" and "x3 = log 10 c3"
  have ne: "x1 \<noteq> x2" unfolding x1_def x2_def using pos(1,2) dist(1) by (rule log10_distinct)
  define D where "D = 3 * (x1 * x1 + x2 * x2 + x3 * x3) - (x1 + x2 + x3) * (x1 + x2 + x3)"
  note line1 = exact_line_fit(1) [where p = x1 and q = x2 and r = x3 and k = a and m = b, OF ne, folded D_def]
  note line2 = exact_line_fit(2) [where p = x1 and q = x2 and r = x3 and k = a and m = b, OF ne]
  note line3 = exact_line_fit(3) [where p = x1 and q = x2 and r = x3 and k = a and m = b, OF ne, folded D_def]
  note line4 = exact_line_fit(4) [where p = x1 and q = x2 and r = x3 and k = a and m = b, OF ne, folded D_def]
  have Dpos: "0 < D" unfolding D_def using ne by (rule exact_line_fit(5))
  show "slope fitted = a"
    unfolding fitted calculateCalibrationCurve_three Let_def
    using line1 by (simp add: x1_def x2_def x3_def D_def)
  show "intercept fitted = b"
    unfolding fitted calculateCalibrationCurve_three Let_def
    using line1 line2 by (simp add: x1_def x2_def x3_def D_def)
  have cc: "correlationCoeff fitted = (if \<bar>a\<bar> * D \<noteq> 0 then a * D / (\<bar>a\<bar> * D) else 0)"
    unfolding fitted calculateCalibrationCurve_three Let_def
    using line3 line4 by (simp add: x1_def x2_def x3_def D_def)
  show "correlationCoeff fitted = sgn a"
    unfolding cc using Dpos by (simp add: sgn_real_def)
qed

text \<open>On the standards 1, 10 and 100, readings with a constant step are such data.\<close>

lemma evenly_spaced_fit:
  fixes v d :: real
  defines "fitted \<equiv> calculateCalibrationCurve
                        [CALIB_STANDARD_1, CALIB_STANDARD_2, CALIB_STANDARD_3] [v, v + d, v + 2 * d]"
  shows "slope (fitted cal) = d" and "intercept (fitted cal) = v"
    and "correlationCoeff (fitted cal) = sgn d"
proof -
  have e: "fitted cal = calculateCalibrationCurve [1, 10, 100]
             [d * log 10 1 + v, d * log 10 10 + v, d * log 10 100 + v] cal"
    unfolding fitted_def standard_values logs by (simp add: add.commute mult.commute)
  have p: "(0::real) < 1" "(0::real) < 10" "(0::real) < 100" by simp_all
  have n: "(1::real) \<noteq> 10" "(1::real) \<noteq> 100" "(10::real) \<noteq> 100" by simp_all
  show "slope (fitted cal) = d" using p n e by (rule loglinear_fit(1))
  show "intercept (fitted cal) = v" using p n e by (rule loglinear_fit(2))
  show "correlationCoeff (fitted cal) = sgn d" using p n e by (rule loglinear_fit(3))
qed

subsection \<open>The two outcomes of a calibration run\<close>

lemma acquired_voltages:
  "map (\<lambda>i. readISEVoltage (readings i)) [0..<CALIBRATION_POINTS]
     = [readISEVoltage (readings 0), readISEVoltage (readings 1), readISEVoltage (readings 2)]"
  by (simp add: CALIBRATION_POINTS_def upt3)

lemma performCalibration_reject:
  assumes "fitted = calculateCalibrationCurve
                      [CALIB_STANDARD_1, CALIB_STANDARD_2, CALIB_STANDARD_3]
                      [readISEVoltage (readings 0), readISEVoltage (readings 1),
                       readISEVoltage (readings 2)] (calibration st)"
      and "\<not> (\<bar>slope fitted\<bar> \<ge> MIN_ACCEPTABLE_SLOPE \<and> \<bar>slope fitted\<bar> \<le> MAX_ACCEPTABLE_SLOPE)"
  shows "performCalibration readings now st = st\<lparr>calibration := fitted\<lparr>isValid := False\<rparr>\<rparr>"
  using assms(2) unfolding performCalibration_def Let_def acquired_voltages assms(1)
  by (simp only: simp_thms if_False)

text \<open>
  The fitted slope of a run is half the difference of two readings of at most 3.3 volts:
  no run passes the acceptance test.
\<close>

lemma acquired_slope_rejected:
  assumes "fitted = calculateCalibrationCurve
                      [CALIB_STANDARD_1, CALIB_STANDARD_2, CALIB_STANDARD_3]
                      [readISEVoltage (readings 0), readISEVoltage (readings 1),
                       readISEVoltage (readings 2)] cal"
  shows "\<not> (\<bar>slope fitted\<bar> \<ge> MIN_ACCEPTABLE_SLOPE \<and> \<bar>slope fitted\<bar> \<le> MAX_ACCEPTABLE_SLOPE)"
proof -
  have sl: "slope fitted = (readISEVoltage (readings 2) - readISEVoltage (readings 0)) / 2"
    unfolding assms by (rule fit_standard_points)
  have up: "(readISEVoltage (readings 2) - readISEVoltage (readings 0)) / 2 \<le> 2"
    using readISEVoltage_range(1) [of "readings 0"] readISEVoltage_range(2) [of "readings 2"]
    by (simp add: field_simps)
  have lo: "- ((readISEVoltage (readings 2) - readISEVoltage (readings 0)) / 2) \<le> 2"
    using readISEVoltage_range(2) [of "readings 0"] readISEVoltage_range(1) [of "readings 2"]
    by (simp add: field_simps)
  have "\<bar>slope fitted\<bar> \<le> 2" unfolding sl using up lo by (rule abs_leI)
  then have "\<not> \<bar>slope fitted\<bar> \<ge> MIN_ACCEPTABLE_SLOPE"
    unfolding MIN_ACCEPTABLE_SLOPE_def by simp
  then show ?thesis by blast
qed

lemma every_run_rejected:
  "performCalibration readings now st =
     st\<lparr>calibration :=
          (calculateCalibrationCurve [CALIB_STANDARD_1, CALIB_STANDARD_2, CALIB_STANDARD_3]
             [readISEVoltage (readings 0), readISEVoltage (readings 1), readISEVoltage (readings 2)]
             (calibration st))\<lparr>isValid := False\<rparr>\<rparr>"
  using refl acquired_slope_rejected [OF refl] by (rule performCalibration_reject)

lemma example_run_voltages:
  "readISEVoltage (exampleRunReadings 0) = 11 / 10"
  "readISEVoltage (exampleRunReadings 1) = 33 / 10"
  "readISEVoltage (exampleRunReadings 2) = 22 / 10"
  by (simp_all add: exampleRunReadings_def readISEVoltage_steady)


lemma example_run_fit:
  fixes cal :: CalibrationData
  defines "fitted \<equiv> calculateCalibrationCurve
      [CALIB_STANDARD_1, CALIB_STANDARD_2, CALIB_STANDARD_3]
      [readISEVoltage (exampleRunReadings 0), readISEVoltage (exampleRunReadings 1),
       readISEVoltage (exampleRunReadings 2)] cal"
  shows "slope fitted = 11 / 20" and "intercept fitted = 33 / 20"
    and "correlationCoeff fitted = 1 / 2"
proof -
  show "slope fitted = 11 / 20"
    unfolding fitted_def example_run_voltages fit_standard_points by simp
  show "intercept fitted = 33 / 20"
    unfolding fitted_def example_run_voltages fit_standard_points by simp
  have "sqrt ((33 / 5) * (33 / 5)) = \<bar>33 / 5 :: real\<bar>" by (rule real_sqrt_abs2)
  then have sq: "sqrt (1089 / 25) = (33 / 5 :: real)" by simp
  show "correlationCoeff fitted = 1 / 2"
    unfolding fitted_def example_run_voltages fit_standard_points by (simp add: sq)
qed

lemma example_run_result:
  fixes st :: AmmoniaState
  defines "st' \<equiv> performCalibration exampleRunReadings 7 st"
  shows "\<not> isValid (calibration st')" and "slope (calibration st') = 11 / 20"
    and "intercept (calibration st') = 33 / 20" and "correlationCoeff (calibration st') = 1 / 2"
proof -
  define fitted where "fitted = calculateCalibrationCurve
      [CALIB_STANDARD_1, CALIB_STANDARD_2, CALIB_STANDARD_3]
      [readISEVoltage (exampleRunReadings 0), readISEVoltage (exampleRunReadings 1),
       readISEVoltage (exampleRunReadings 2)] (calibration st)"
  have r: "st' = st\<lparr>calibration := fitted\<lparr>isValid := False\<rparr>\<rparr>"
    unfolding st'_def fitted_def by (rule every_run_rejected)
  have f: "slope fitted = 11 / 20" "intercept fitted = 33 / 20" "correlationCoeff fitted = 1 / 2"
    unfolding fitted_def by (rule example_run_fit)+
  show "\<not> isValid (calibration st')" unfolding r by simp
  show "slope (calibration st') = 11 / 20" unfolding r using f by simp
  show "intercept (calibration st') = 33 / 20" unfolding r using f by simp
  show "correlationCoeff (calibration st') = 1 / 2" unfolding r using f by simp
qed


text \<open>
  C1 (as amended). A calibration run whose fitted slope fails the acceptance test
  (\<open>|slope|\<close> outside [50, 65], the only test the run makes) returns normally with the
  curve in memory marked invalid. Slope, intercept and correlation coefficient in memory
  are those of the rejected fit, not the previous ones; the recorded calibration points
  and the calibration date keep their previous values, the durable store is not written,
  and nothing else of the state changes.
\<close>

theorem rejected_calibration_overwrites_fit:
  assumes fitted: "fitted = calculateCalibrationCurve
                      [CALIB_STANDARD_1, CALIB_STANDARD_2, CALIB_STANDARD_3]
                      [readISEVoltage (readings 0), readISEVoltage (readings 1),
                       readISEVoltage (readings 2)] (calibration st)"
      and rejected: "\<not> (\<bar>slope fitted\<bar> \<ge> MIN_ACCEPTABLE_SLOPE \<and> \<bar>slope fitted\<bar> \<le> MAX_ACCEPTABLE_SLOPE)"
      and st': "st' = performCalibration readings now st"
  shows "\<not> isValid (calibration st')
       \<and> slope (calibration st') = slope fitted
       \<and> intercept (calibration st') = intercept fitted
       \<and> correlationCoeff (calibration st') = correlationCoeff fitted
       \<and> standards (calibration st') = standards (calibration st)
       \<and> voltages (calibration st') = voltages (calibration st)
       \<and> calibrationDate (calibration st') = calibrationDate (calibration st)
       \<and> eeprom st' = eeprom st
       \<and> st' = st\<lparr>calibration := calibration st'\<rparr>"
proof -
  have r: "st' = st\<lparr>calibration := fitted\<lparr>isValid := False\<rparr>\<rparr>"
    unfolding st' using fitted rejected by (rule performCalibration_reject)
  have keep: "standards fitted = standards (calibration st)"
    "voltages fitted = voltages (calibration st)"
    "calibrationDate fitted = calibrationDate (calibration st)"
    unfolding fitted calculateCalibrationCurve_def Let_def by simp_all
  show ?thesis unfolding r using keep by simp
qed

theorem rejected_calibration_overwrites_fit_witness:
  "\<not> (\<bar>11 / 20 :: real\<bar> \<ge> MIN_ACCEPTABLE_SLOPE \<and> \<bar>11 / 20 :: real\<bar> \<le> MAX_ACCEPTABLE_SLOPE)
   \<and> \<not> isValid (calibration (performCalibration exampleRunReadings 7 exampleState))
   \<and> slope (calibration (performCalibration exampleRunReadings 7 exampleState)) = 11 / 20
   \<and> eeprom (performCalibration exampleRunReadings 7 exampleState) = exampleEEPROM"
proof -
  define fitted where "fitted = calculateCalibrationCurve
      [CALIB_STANDARD_1, CALIB_STANDARD_2, CALIB_STANDARD_3]
      [readISEVoltage (exampleRunReadings 0), readISEVoltage (exampleRunReadings 1),
       readISEVoltage (exampleRunReadings 2)] (calibration exampleState)"
  have sl: "slope fitted = 11 / 20" unfolding fitted_def by (rule example_run_fit)
  have rej: "\<not> (\<bar>slope fitted\<bar> \<ge> MIN_ACCEPTABLE_SLOPE \<and> \<bar>slope fitted\<bar> \<le> MAX_ACCEPTABLE_SLOPE)"
    unfolding sl by (simp add: ammonia_consts)
  note th = rejected_calibration_overwrites_fit [OF fitted_def rej refl, of 7]
  have "eeprom exampleState = exampleEEPROM" by (simp add: exampleState_def)
  with th sl show ?thesis by (simp add: ammonia_consts)
qed

text \<open>
  The claim as stated (slope, intercept and correlation after a failed run equal their
  values before it) fails. A run whose ten readings per standard are 1365, 4095 and 2730
  counts (1.1, 3.3 and 2.2 volts) is rejected and leaves slope 0.55, intercept 1.65 and
  correlation 0.5 in memory, both after a curve with slope -59, intercept 200 and
  correlation -1 and after the zero-initialised curve of a fresh start.
\<close>

theorem failed_run_changes_curve_counterexample:
  "isValid (calibration exampleState)
   \<and> \<not> isValid (calibration (performCalibration exampleRunReadings 7 exampleState))
   \<and> slope (calibration exampleState) = -59
   \<and> slope (calibration (performCalibration exampleRunReadings 7 exampleState)) = 11 / 20
   \<and> intercept (calibration exampleState) = 200
   \<and> intercept (calibration (performCalibration exampleRunReadings 7 exampleState)) = 33 / 20
   \<and> correlationCoeff (calibration exampleState) = -1
   \<and> correlationCoeff (calibration (performCalibration exampleRunReadings 7 exampleState)) = 1 / 2
   \<and> slope (calibration exampleUncalibratedState) = 0
   \<and> slope (calibration (performCalibration exampleRunReadings 7 exampleUncalibratedState)) = 11 / 20
   \<and> intercept (calibration exampleUncalibratedState) = 0
   \<and> intercept (calibration (performCalibration exampleRunReadings 7 exampleUncalibratedState)) = 33 / 20
   \<and> correlationCoeff (calibration exampleUncalibratedState) = 0
   \<and> correlationCoeff (calibration (performCalibration exampleRunReadings 7 exampleUncalibratedState))
       = 1 / 2"
proof -
  have old: "isValid (calibration exampleState)" "slope (calibration exampleState) = -59"
    "intercept (calibration exampleState) = 200" "correlationCoeff (calibration exampleState) = -1"
    by (simp_all add: example_defs)
  have zero: "slope (calibration exampleUncalibratedState) = 0"
    "intercept (calibration exampleUncalibratedState) = 0"
    "correlationCoeff (calibration exampleUncalibratedState) = 0"
    by (simp_all add: exampleUncalibratedState_def zeroCalibration_def)
  show ?thesis using old zero example_run_result by simp
qed

subsection \<open>The acceptance test on the electrode input\<close>


subsection \<open>The durable store\<close>

text \<open>
  C3 (as amended). Saving a curve and loading it into any receiving structure returns
  the saved \<open>isValid\<close>, slope, intercept and calibration date. The correlation
  coefficient is not stored: after loading it is the one the receiving structure held.
\<close>

theorem stored_fields_round_trip:
  "isValid (loadCalibrationData (saveCalibrationData c ee) target) = isValid c
   \<and> slope (loadCalibrationData (saveCalibrationData c ee) target) = slope c
   \<and> intercept (loadCalibrationData (saveCalibrationData c ee) target) = intercept c
   \<and> calibrationDate (loadCalibrationData (saveCalibrationData c ee) target) = calibrationDate c
   \<and> correlationCoeff (loadCalibrationData (saveCalibrationData c ee) target) = correlationCoeff target"
  by (simp add: loadCalibrationData_def saveCalibrationData_def)

text \<open>
  The claim as stated (equality in all fields) fails across a restart, where the
  receiving structure is zero-initialised: the correlation coefficient and the recorded
  standards come back as zeros.
\<close>

theorem round_trip_loses_fields_counterexample:
  "loadCalibrationData (saveCalibrationData exampleCalibration exampleEEPROM) zeroCalibration
     \<noteq> exampleCalibration
   \<and> correlationCoeff exampleCalibration = -1
   \<and> correlationCoeff
        (loadCalibrationData (saveCalibrationData exampleCalibration exampleEEPROM) zeroCalibration) = 0
   \<and> standards exampleCalibration = [1, 10, 100]
   \<and> standards
        (loadCalibrationData (saveCalibrationData exampleCalibration exampleEEPROM) zeroCalibration)
        = [0, 0, 0]"
  by (simp add: loadCalibrationData_def saveCalibrationData_def exampleCalibration_def
      zeroCalibration_def)


subsection \<open>Exactly log-linear calibration data\<close>

lemma scenario_C:
  fixes cal :: CalibrationData
  defines "fitted \<equiv> calculateCalibrationCurve [1, 10, 100] [200, 141, 82] cal"
  shows "slope fitted = -59" "intercept fitted = 200" "correlationCoeff fitted = -1"
proof -
  have e: "fitted = calculateCalibrationCurve
             [CALIB_STANDARD_1, CALIB_STANDARD_2, CALIB_STANDARD_3]
             [200, 200 + (- 59), 200 + 2 * (- 59)] cal"
    unfolding fitted_def standard_values by simp
  show "slope fitted = -59" unfolding e by (rule evenly_spaced_fit)
  show "intercept fitted = 200" unfolding e by (rule evenly_spaced_fit)
  show "correlationCoeff fitted = -1" unfolding e evenly_spaced_fit(3) by simp
qed

text \<open>
  C6 (as amended). For three positive, pairwise distinct standards and raw signals
  \<open>v_i = a * log10 c_i + b\<close>, the fit returns slope \<open>a\<close> and intercept \<open>b\<close>; the
  correlation coefficient is the sign of \<open>a\<close>: its absolute value is 1 when \<open>a\<close> is not
  0, and it is 0 when \<open>a = 0\<close> (the guard on a zero denominator). For the standards 1,
  10, 100 and the signals 200, 141, 82 the fit returns slope -59, intercept 200 and
  correlation -1.
\<close>

theorem exact_loglinear_fit_recovered:
  fixes c1 c2 c3 a b :: real
  assumes pos: "0 < c1" "0 < c2" "0 < c3"
      and dist: "c1 \<noteq> c2" "c1 \<noteq> c3" "c2 \<noteq> c3"
      and fitted: "fitted = calculateCalibrationCurve [c1, c2, c3]
                     [a * log 10 c1 + b, a * log 10 c2 + b, a * log 10 c3 + b] cal"
  shows "slope fitted = a \<and> intercept fitted = b
       \<and> correlationCoeff fitted = sgn a
       \<and> (a \<noteq> 0 \<longrightarrow> \<bar>correlationCoeff fitted\<bar> = 1)
       \<and> (a = 0 \<longrightarrow> correlationCoeff fitted = 0)
       \<and> slope (calculateCalibrationCurve [1, 10, 100] [200, 141, 82] cal) = -59
       \<and> intercept (calculateCalibrationCurve [1, 10, 100] [200, 141, 82] cal) = 200
       \<and> correlationCoeff (calculateCalibrationCurve [1, 10, 100] [200, 141, 82] cal) = -1"
proof -
  note f = loglinear_fit [OF pos dist fitted]
  have c1: "a \<noteq> 0 \<longrightarrow> \<bar>correlationCoeff fitted\<bar> = 1" unfolding f(3) by (simp add: sgn_real_def)
  have c0: "a = 0 \<longrightarrow> correlationCoeff fitted = 0" unfolding f(3) by simp
  show ?thesis using f c1 c0 scenario_C by blast
qed

theorem exact_loglinear_fit_recovered_witness:
  "(0::real) < 1 \<and> (0::real) < 10 \<and> (0::real) < 100
   \<and> (1::real) \<noteq> 10 \<and> (1::real) \<noteq> 100 \<and> (10::real) \<noteq> 100 \<and> (-59::real) \<noteq> 0
   \<and> slope (calculateCalibrationCurve [1, 10, 100]
        [-59 * log 10 1 + 200, -59 * log 10 10 + 200, -59 * log 10 100 + 200] zeroCalibration) = -59
   \<and> intercept (calculateCalibrationCurve [1, 10, 100]
        [-59 * log 10 1 + 200, -59 * log 10 10 + 200, -59 * log 10 100 + 200] zeroCalibration) = 200
   \<and> \<bar>correlationCoeff (calculateCalibrationCurve [1, 10, 100]
        [-59 * log 10 1 + 200, -59 * log 10 10 + 200, -59 * log 10 100 + 200] zeroCalibration)\<bar> = 1"
proof -
  have p: "(0::real) < 1" "(0::real) < 10" "(0::real) < 100" by simp_all
  have d: "(1::real) \<noteq> 10" "(1::real) \<noteq> 100" "(10::real) \<noteq> 100" by simp_all
  have nz: "(-59::real) \<noteq> 0" by simp
  note th = exact_loglinear_fit_recovered [OF p d refl, of "-59" 200 zeroCalibration]
  from th nz show ?thesis by simp
qed

text \<open>
  The claim as stated (absolute correlation 1 for every exactly log-linear data set)
  fails for the constant relation \<open>a = 0\<close>, \<open>b = 1\<close>, and in the same way for a
  calibration run in which the electrode input stays at 1365 counts (1.1 volts) for all
  three standards.
\<close>

theorem constant_signal_correlation_counterexample:
  "[1 :: real, 1, 1] = [0 * log 10 1 + 1, 0 * log 10 10 + 1, 0 * log 10 100 + 1]
   \<and> slope (calculateCalibrationCurve [1, 10, 100] [1, 1, 1] zeroCalibration) = 0
   \<and> intercept (calculateCalibrationCurve [1, 10, 100] [1, 1, 1] zeroCalibration) = 1
   \<and> correlationCoeff (calculateCalibrationCurve [1, 10, 100] [1, 1, 1] zeroCalibration) = 0
   \<and> \<bar>correlationCoeff (calculateCalibrationCurve [1, 10, 100] [1, 1, 1] zeroCalibration)\<bar> \<noteq> 1
   \<and> slope (calibration (performCalibration constantRunReadings 7 exampleUncalibratedState)) = 0
   \<and> intercept (calibration (performCalibration constantRunReadings 7 exampleUncalibratedState))
       = 11 / 10
   \<and> correlationCoeff (calibration (performCalibration constantRunReadings 7 exampleUncalibratedState))
       = 0"
proof -
  have v: "readISEVoltage (constantRunReadings i) = 11 / 10" for i
    by (simp add: constantRunReadings_def readISEVoltage_steady)
  have run: "slope (calibration (performCalibration constantRunReadings 7 exampleUncalibratedState)) = 0
     \<and> intercept (calibration (performCalibration constantRunReadings 7 exampleUncalibratedState))
         = 11 / 10
     \<and> correlationCoeff (calibration (performCalibration constantRunReadings 7 exampleUncalibratedState))
         = 0"
    unfolding every_run_rejected v by (simp add: fit_standard_points)
  have pure: "[1 :: real, 1, 1] = [0 * log 10 1 + 1, 0 * log 10 10 + 1, 0 * log 10 100 + 1]
   \<and> slope (calculateCalibrationCurve [1, 10, 100] [1, 1, 1] zeroCalibration) = 0
   \<and> intercept (calculateCalibrationCurve [1, 10, 100] [1, 1, 1] zeroCalibration) = 1
   \<and> correlationCoeff (calculateCalibrationCurve [1, 10, 100] [1, 1, 1] zeroCalibration) = 0
   \<and> \<bar>correlationCoeff (calculateCalibrationCurve [1, 10, 100] [1, 1, 1] zeroCalibration)\<bar> \<noteq> 1"
    by (simp add: calculateCalibrationCurve_three logs Let_def)
  from pure run show ?thesis by blast
qed

section \<open>Properties of validation and of uncalibrated operation\<close>

lemmas nitrite_example_defs = exampleMeasurementData_def exampleDraws_def
  exampleNitriteCalibration_def exampleNitriteState_def exampleColdNitriteState_def
  exampleDummyNitriteState_def
  defaultSensorConfig_def

lemma performMeasurement_fields:
  fixes uninit r mv_no2 mv_no3 tempC now st
  defines "d \<equiv> fst (performMeasurement uninit r mv_no2 mv_no3 tempC now st)"
  shows "valid d =
           (nitrite_concentration d \<ge> 0 \<and> nitrite_concentration d \<le> 100 \<and>
            nitrate_concentration d \<ge> 0 \<and> nitrate_concentration d \<le> 1000 \<and>
            temperature_nn d > -10 \<and> temperature_nn d < 50)"
proof -
  define d1 where "d1 =
     (if dummy_mode (config st) then generateDummyData r (uninit\<lparr>timestamp_nn := now\<rparr>)
      else applyCrossSensorCompensation (config st)
             (applyTemperatureCompensation (config st)
               (calculateConcentrations (config st) (calibration_nn st)
                 (uninit\<lparr>timestamp_nn := now, nitrite_voltage := mv_no2, nitrate_voltage := mv_no3,
                         temperature_nn := tempC, ph_value := 7.0, conductivity := 500.0\<rparr>))))"
  define ok where "ok =
     (nitrite_concentration d1 \<ge> 0 \<and> nitrite_concentration d1 \<le> 100 \<and>
      nitrate_concentration d1 \<ge> 0 \<and> nitrate_concentration d1 \<le> 1000 \<and>
      temperature_nn d1 > -10 \<and> temperature_nn d1 < 50)"
  have d: "d = (if ok then d1\<lparr>valid := ok,
                    quality_score := calculateQualityScore (calibration_nn st) now (d1\<lparr>valid := ok\<rparr>)\<rparr>
                else d1\<lparr>valid := ok\<rparr>)"
    unfolding d_def performMeasurement_def Let_def d1_def ok_def by simp
  show ?thesis unfolding d using ok_def by simp
qed


lemma performMeasurement_cases:
  assumes d1: "d1 =
     (if dummy_mode (config st) then generateDummyData r (uninit\<lparr>timestamp_nn := now\<rparr>)
      else applyCrossSensorCompensation (config st)
             (applyTemperatureCompensation (config st)
               (calculateConcentrations (config st) (calibration_nn st)
                 (uninit\<lparr>timestamp_nn := now, nitrite_voltage := mv_no2, nitrate_voltage := mv_no3,
                         temperature_nn := tempC, ph_value := 7.0, conductivity := 500.0\<rparr>))))"
      and ok: "ok =
     (nitrite_concentration d1 \<ge> 0 \<and> nitrite_concentration d1 \<le> 100 \<and>
      nitrate_concentration d1 \<ge> 0 \<and> nitrate_concentration d1 \<le> 1000 \<and>
      temperature_nn d1 > -10 \<and> temperature_nn d1 < 50)"
      and d3: "d3 = d1\<lparr>valid := True,
                 quality_score := calculateQualityScore (calibration_nn st) now (d1\<lparr>valid := True\<rparr>)\<rparr>"
  shows "performMeasurement uninit r mv_no2 mv_no3 tempC now st =
           (if ok then (d3, handleAlarms d3 (publishData d3 (st\<lparr>consecutiveErrors_nn := 0\<rparr>)))
            else (d1\<lparr>valid := False\<rparr>, st\<lparr>consecutiveErrors_nn := consecutiveErrors_nn st + 1\<rparr>))"
proof (cases ok)
  case True
  then show ?thesis
    unfolding performMeasurement_def Let_def d3 d1 [symmetric] ok [symmetric] by simp
next
  case False
  then show ?thesis
    unfolding performMeasurement_def Let_def d3 d1 [symmetric] ok [symmetric] by simp
qed

lemma uncalibrated_score_bound:
  assumes "\<not> calibrated cal"
  shows "calculateQualityScore cal now d \<le> 70"
  using assms unfolding calculateQualityScore_def Let_def by simp

lemma published_after_measurement:
  fixes uninit r mv_no2 mv_no3 tempC now st
  defines "res \<equiv> performMeasurement uninit r mv_no2 mv_no3 tempC now st"
  shows "valid (fst res) \<Longrightarrow>
           mqtt_out (snd res) = mqtt_out st @ [last (mqtt_out (snd res))]
           \<and> pub_nitrite_mg_l (last (mqtt_out (snd res))) = nitrite_concentration (fst res)
           \<and> pub_nitrate_mg_l (last (mqtt_out (snd res))) = nitrate_concentration (fst res)
           \<and> pub_calibrated (last (mqtt_out (snd res))) = calibrated (calibration_nn st)
           \<and> pub_quality_score (last (mqtt_out (snd res))) = quality_score (fst res)
           \<and> quality_score (fst res) = calculateQualityScore (calibration_nn st) now (fst res)"
    and "\<not> valid (fst res) \<Longrightarrow> mqtt_out (snd res) = mqtt_out st"
proof -
  define d1 where "d1 =
     (if dummy_mode (config st) then generateDummyData r (uninit\<lparr>timestamp_nn := now\<rparr>)
      else applyCrossSensorCompensation (config st)
             (applyTemperatureCompensation (config st)
               (calculateConcentrations (config st) (calibration_nn st)
                 (uninit\<lparr>timestamp_nn := now, nitrite_voltage := mv_no2, nitrate_voltage := mv_no3,
                         temperature_nn := tempC, ph_value := 7.0, conductivity := 500.0\<rparr>))))"
  define ok where "ok =
     (nitrite_concentration d1 \<ge> 0 \<and> nitrite_concentration d1 \<le> 100 \<and>
      nitrate_concentration d1 \<ge> 0 \<and> nitrate_concentration d1 \<le> 1000 \<and>
      temperature_nn d1 > -10 \<and> temperature_nn d1 < 50)"
  define d3 where "d3 = d1\<lparr>valid := True,
                 quality_score := calculateQualityScore (calibration_nn st) now (d1\<lparr>valid := True\<rparr>)\<rparr>"
  note c = performMeasurement_cases [OF d1_def ok_def d3_def, folded res_def]
  have q: "calculateQualityScore (calibration_nn st) now d3
             = calculateQualityScore (calibration_nn st) now (d1\<lparr>valid := True\<rparr>)"
    unfolding d3_def calculateQualityScore_def by simp
  show "valid (fst res) \<Longrightarrow>
           mqtt_out (snd res) = mqtt_out st @ [last (mqtt_out (snd res))]
           \<and> pub_nitrite_mg_l (last (mqtt_out (snd res))) = nitrite_concentration (fst res)
           \<and> pub_nitrate_mg_l (last (mqtt_out (snd res))) = nitrate_concentration (fst res)
           \<and> pub_calibrated (last (mqtt_out (snd res))) = calibrated (calibration_nn st)
           \<and> pub_quality_score (last (mqtt_out (snd res))) = quality_score (fst res)
           \<and> quality_score (fst res) = calculateQualityScore (calibration_nn st) now (fst res)"
    unfolding c using q by (cases ok) (simp_all add: d3_def handleAlarms_def publishData_def Let_def)
  show "\<not> valid (fst res) \<Longrightarrow> mqtt_out (snd res) = mqtt_out st"
    unfolding c by (cases ok) (simp_all add: d3_def)
qed


lemma cycle_concentrations:
  fixes uninit r mv_no2 mv_no3 tempC now st
  defines "res \<equiv> performMeasurement uninit r mv_no2 mv_no3 tempC now st"
  shows "\<not> dummy_mode (config st) \<Longrightarrow> \<not> calibrated (calibration_nn st) \<Longrightarrow>
           nitrite_concentration (fst res)
             = 10 powr ((mv_no2 - nitrite_intercept (config st)) / nitrite_slope (config st))
               * (1 + temp_coefficient (config st) * (tempC - 25))
           \<and> nitrate_concentration (fst res)
             = 10 powr ((mv_no3 - nitrate_intercept (config st)) / nitrate_slope (config st))
               * (1 + temp_coefficient (config st) * (tempC - 25))
           \<and> temperature_nn (fst res) = tempC"
    and "dummy_mode (config st) \<Longrightarrow>
           nitrite_concentration (fst res) = 0.1 + real_of_int (rnd_no2 r) / 100
           \<and> nitrate_concentration (fst res) = 5 + real_of_int (rnd_no3 r) / 10
           \<and> temperature_nn (fst res) = 20 + real_of_int (rnd_temp r) / 10"
proof -
  define d1 where "d1 =
     (if dummy_mode (config st) then generateDummyData r (uninit\<lparr>timestamp_nn := now\<rparr>)
      else applyCrossSensorCompensation (config st)
             (applyTemperatureCompensation (config st)
               (calculateConcentrations (config st) (calibration_nn st)
                 (uninit\<lparr>timestamp_nn := now, nitrite_voltage := mv_no2, nitrate_voltage := mv_no3,
                         temperature_nn := tempC, ph_value := 7.0, conductivity := 500.0\<rparr>))))"
  define ok where "ok =
     (nitrite_concentration d1 \<ge> 0 \<and> nitrite_concentration d1 \<le> 100 \<and>
      nitrate_concentration d1 \<ge> 0 \<and> nitrate_concentration d1 \<le> 1000 \<and>
      temperature_nn d1 > -10 \<and> temperature_nn d1 < 50)"
  define d3 where "d3 = d1\<lparr>valid := True,
                 quality_score := calculateQualityScore (calibration_nn st) now (d1\<lparr>valid := True\<rparr>)\<rparr>"
  note c = performMeasurement_cases [OF d1_def ok_def d3_def, folded res_def]
  have same: "nitrite_concentration (fst res) = nitrite_concentration d1"
    "nitrate_concentration (fst res) = nitrate_concentration d1"
    "temperature_nn (fst res) = temperature_nn d1"
    unfolding c by (cases ok; simp add: d3_def)+
  show "\<not> dummy_mode (config st) \<Longrightarrow> \<not> calibrated (calibration_nn st) \<Longrightarrow>
           nitrite_concentration (fst res)
             = 10 powr ((mv_no2 - nitrite_intercept (config st)) / nitrite_slope (config st))
               * (1 + temp_coefficient (config st) * (tempC - 25))
           \<and> nitrate_concentration (fst res)
             = 10 powr ((mv_no3 - nitrate_intercept (config st)) / nitrate_slope (config st))
               * (1 + temp_coefficient (config st) * (tempC - 25))
           \<and> temperature_nn (fst res) = tempC"
    unfolding same d1_def
    by (simp add: calculateConcentrations_def applyTemperatureCompensation_def
        applyCrossSensorCompensation_def Let_def)
  show "dummy_mode (config st) \<Longrightarrow>
           nitrite_concentration (fst res) = 0.1 + real_of_int (rnd_no2 r) / 100
           \<and> nitrate_concentration (fst res) = 5 + real_of_int (rnd_no3 r) / 10
           \<and> temperature_nn (fst res) = 20 + real_of_int (rnd_temp r) / 10"
    unfolding same d1_def by (simp add: generateDummyData_def)
qed

subsection \<open>When a measurement is marked valid\<close>

lemma takeAmmoniaMeasurement_dataValid:
  "dataValid (currentReading (takeAmmoniaMeasurement tempRaw phRaw v tnow st))
     = (calculateAmmoniaConcentration (calibration st) v (readTemperature tempRaw) \<ge> AMMONIA_MIN_RANGE
        \<and> calculateAmmoniaConcentration (calibration st) v (readTemperature tempRaw) \<le> AMMONIA_MAX_RANGE)"
  unfolding takeAmmoniaMeasurement_def Let_def by simp

lemma takeAmmoniaMeasurement_temperature:
  "dataValid (currentReading (takeAmmoniaMeasurement tempRaw phRaw v tnow st))
     \<Longrightarrow> temperature (currentReading (takeAmmoniaMeasurement tempRaw phRaw v tnow st))
           = readTemperature tempRaw"
  unfolding takeAmmoniaMeasurement_def Let_def by (simp split: if_splits)

lemma readTemperature_window: "readTemperature t > -50" "readTemperature t < 125"
  unfolding readTemperature_def REFERENCE_TEMP_def by simp_all

lemma example_total_is_one:
  "calculateAmmoniaConcentration (calibration exampleState) 200 T = 1"
  by (simp add: calculateAmmoniaConcentration_def example_defs)

text \<open>
  C7 (as amended). In the nitrite/nitrate module a measurement is marked valid exactly
  when both concentrations lie within their physical ranges and the temperature lies
  strictly between -10 and 50; a computed value of -5 is never valid. In the ammonia
  module a measurement is marked valid exactly when the total lies within [0.01, 100];
  the temperature is not part of that test: it is the raw reading when that lies
  strictly between -50 and 125 and the reference temperature otherwise.
\<close>

theorem validity_conditions:
  assumes d: "d = fst (performMeasurement uninit r mv_no2 mv_no3 tempC now nst)"
      and tot: "tot = calculateAmmoniaConcentration (calibration st) v (readTemperature tempRaw)"
      and st': "st' = takeAmmoniaMeasurement tempRaw phRaw v tnow st"
  shows "valid d =
           (nitrite_concentration d \<ge> 0 \<and> nitrite_concentration d \<le> 100 \<and>
            nitrate_concentration d \<ge> 0 \<and> nitrate_concentration d \<le> 1000 \<and>
            temperature_nn d > -10 \<and> temperature_nn d < 50)
       \<and> (nitrite_concentration d = -5 \<longrightarrow> \<not> valid d)
       \<and> dataValid (currentReading st') = (tot \<ge> AMMONIA_MIN_RANGE \<and> tot \<le> AMMONIA_MAX_RANGE)
       \<and> (dataValid (currentReading st') \<longrightarrow>
            temperature (currentReading st') = readTemperature tempRaw)
       \<and> readTemperature tempRaw > -50 \<and> readTemperature tempRaw < 125"
proof -
  have v: "valid d =
           (nitrite_concentration d \<ge> 0 \<and> nitrite_concentration d \<le> 100 \<and>
            nitrate_concentration d \<ge> 0 \<and> nitrate_concentration d \<le> 1000 \<and>
            temperature_nn d > -10 \<and> temperature_nn d < 50)"
    unfolding d by (rule performMeasurement_fields)
  then have m: "nitrite_concentration d = -5 \<longrightarrow> \<not> valid d" by simp
  have a: "dataValid (currentReading st') = (tot \<ge> AMMONIA_MIN_RANGE \<and> tot \<le> AMMONIA_MAX_RANGE)"
    unfolding st' tot by (rule takeAmmoniaMeasurement_dataValid)
  have t: "dataValid (currentReading st') \<longrightarrow>
            temperature (currentReading st') = readTemperature tempRaw"
    unfolding st' using takeAmmoniaMeasurement_temperature by blast
  show ?thesis using v m a t readTemperature_window by blast
qed

theorem validity_conditions_witness:
  "nitrite_concentration
     (fst (performMeasurement exampleMeasurementData exampleDraws 0 0 (-127) 9 exampleColdNitriteState)) = -5
   \<and> \<not> valid
     (fst (performMeasurement exampleMeasurementData exampleDraws 0 0 (-127) 9 exampleColdNitriteState))
   \<and> dataValid (currentReading (takeAmmoniaMeasurement 25 7 200 5 exampleState))
   \<and> temperature (currentReading (takeAmmoniaMeasurement 25 7 200 5 exampleState)) = 25"
proof -
  have c: "nitrite_concentration
     (fst (performMeasurement exampleMeasurementData exampleDraws 0 0 (-127) 9 exampleColdNitriteState)) = -5"
    by (simp add: performMeasurement_def Let_def calculateConcentrations_def
        applyTemperatureCompensation_def applyCrossSensorCompensation_def nitrite_example_defs)
  have one: "(1::real) = calculateAmmoniaConcentration (calibration exampleState) 200 (readTemperature 25)"
    by (simp add: example_total_is_one)
  note th = validity_conditions [OF refl one refl, of exampleMeasurementData exampleDraws 0 0 "-127" 9
      exampleColdNitriteState 7 5]
  have r: "readTemperature 25 = 25" by (simp add: readTemperature_def)
  from th c r show ?thesis by (simp add: ammonia_consts)
qed

text \<open>
  The claim as stated (valid only if the measured temperature lies within its bounds)
  fails in the ammonia module: a reading at 60 degrees is valid, and so is one whose raw
  temperature is -127 (outside the reader's own window), which is replaced by 25. The
  same holds after a restart that loaded a stored curve, with the electrode input at 0
  counts.
\<close>

theorem valid_outside_temperature_bounds_counterexample:
  "dataValid (currentReading (takeAmmoniaMeasurement 60 7 200 5 exampleState))
   \<and> temperature (currentReading (takeAmmoniaMeasurement 60 7 200 5 exampleState)) = 60
   \<and> \<not> (60 \<le> (50::real))
   \<and> dataValid (currentReading (takeAmmoniaMeasurement (-127) 7 200 5 exampleState))
   \<and> temperature (currentReading (takeAmmoniaMeasurement (-127) 7 200 5 exampleState)) = 25
   \<and> \<not> (-50 < (-127::real))
   \<and> dataValid (currentReading
        (takeAmmoniaMeasurement 60 7 (readISEVoltage (steadyReadings 0)) 5 exampleRestartedState))
   \<and> temperature (currentReading
        (takeAmmoniaMeasurement 60 7 (readISEVoltage (steadyReadings 0)) 5 exampleRestartedState)) = 60
   \<and> dataValid (currentReading
        (takeAmmoniaMeasurement (-127) 7 (readISEVoltage (steadyReadings 0)) 5 exampleRestartedState))
   \<and> temperature (currentReading
        (takeAmmoniaMeasurement (-127) 7 (readISEVoltage (steadyReadings 0)) 5 exampleRestartedState))
       = 25"
proof -
  have w: "dataValid (currentReading
        (takeAmmoniaMeasurement t 7 (readISEVoltage (steadyReadings 0)) 5 exampleRestartedState))" for t
    unfolding takeAmmoniaMeasurement_dataValid restarted_total_is_one by (simp add: ammonia_consts)
  have w60: "temperature (currentReading
        (takeAmmoniaMeasurement 60 7 (readISEVoltage (steadyReadings 0)) 5 exampleRestartedState)) = 60"
    using takeAmmoniaMeasurement_temperature [OF w] by (simp add: readTemperature_def)
  have w127: "temperature (currentReading
        (takeAmmoniaMeasurement (-127) 7 (readISEVoltage (steadyReadings 0)) 5 exampleRestartedState))
       = 25"
    using takeAmmoniaMeasurement_temperature [OF w] by (simp add: readTemperature_def REFERENCE_TEMP_def)
  have v: "dataValid (currentReading (takeAmmoniaMeasurement t 7 200 5 exampleState))" for t
    unfolding takeAmmoniaMeasurement_dataValid example_total_is_one by (simp add: ammonia_consts)
  have "temperature (currentReading (takeAmmoniaMeasurement 60 7 200 5 exampleState)) = 60"
    using takeAmmoniaMeasurement_temperature [OF v] by (simp add: readTemperature_def)
  moreover have "temperature (currentReading (takeAmmoniaMeasurement (-127) 7 200 5 exampleState)) = 25"
    using takeAmmoniaMeasurement_temperature [OF v] by (simp add: readTemperature_def REFERENCE_TEMP_def)
  ultimately show ?thesis using v w w60 w127 by simp
qed


subsection \<open>Sampling without a valid calibration\<close>

lemma uncalibrated_ammonia_cycle:
  assumes "\<not> isValid (calibration st)"
  shows "calculateAmmoniaConcentration (calibration st) v T = 0"
    and "takeAmmoniaMeasurement tempRaw phRaw v tnow st
           = st\<lparr>currentReading := (currentReading st)\<lparr>dataValid := False\<rparr>\<rparr>"
proof -
  show z: "calculateAmmoniaConcentration (calibration st) v T = 0" for T
    using assms by (simp add: calculateAmmoniaConcentration_def)
  show "takeAmmoniaMeasurement tempRaw phRaw v tnow st
           = st\<lparr>currentReading := (currentReading st)\<lparr>dataValid := False\<rparr>\<rparr>"
    unfolding takeAmmoniaMeasurement_def Let_def z by (simp add: ammonia_consts)
qed

lemma default_model_used:
  assumes "\<not> calibrated cal"
  shows "nitrite_concentration (calculateConcentrations cfg cal c)
           = 10 powr ((nitrite_voltage c - nitrite_intercept cfg) / nitrite_slope cfg)"
    and "nitrate_concentration (calculateConcentrations cfg cal c)
           = 10 powr ((nitrate_voltage c - nitrate_intercept cfg) / nitrate_slope cfg)"
  using assms by (simp_all add: calculateConcentrations_def)

text \<open>
  C8 (as amended). Without a calibration, every cycle of the nitrite/nitrate module
  outside dummy mode computes each concentration as the default model
  \<open>10^((V - intercept) / slope)\<close>, with the configured default slope and intercept, times
  the temperature factor \<open>1 + temp_coefficient * (T - 25)\<close> (the pH and conductivity
  factors are 1 at the readings 7.0 and 500 the sketch puts in); in dummy mode the
  concentrations are the generated ones. In both modes a valid cycle publishes one
  record, which carries these concentrations, \<open>calibrated = false\<close> and a quality score
  of at most 70, and an invalid cycle publishes nothing. Without a valid calibration the
  ammonia module's concentration computation returns 0 whatever the signal, the range
  test rejects it and the cycle only clears \<open>dataValid\<close>.
\<close>

theorem uncalibrated_cycle:
  assumes uncal: "\<not> calibrated (calibration_nn nst)"
      and res: "res = performMeasurement uninit r mv_no2 mv_no3 tempC now nst"
      and auncal: "\<not> isValid (calibration st)"
  shows "(\<not> dummy_mode (config nst) \<longrightarrow>
            nitrite_concentration (fst res)
              = 10 powr ((mv_no2 - nitrite_intercept (config nst)) / nitrite_slope (config nst))
                * (1 + temp_coefficient (config nst) * (tempC - 25))
            \<and> nitrate_concentration (fst res)
              = 10 powr ((mv_no3 - nitrate_intercept (config nst)) / nitrate_slope (config nst))
                * (1 + temp_coefficient (config nst) * (tempC - 25))
            \<and> temperature_nn (fst res) = tempC)
       \<and> (dummy_mode (config nst) \<longrightarrow>
            nitrite_concentration (fst res) = 0.1 + real_of_int (rnd_no2 r) / 100
            \<and> nitrate_concentration (fst res) = 5 + real_of_int (rnd_no3 r) / 10
            \<and> temperature_nn (fst res) = 20 + real_of_int (rnd_temp r) / 10)
       \<and> (valid (fst res) \<longrightarrow>
            mqtt_out (snd res) = mqtt_out nst @ [last (mqtt_out (snd res))]
            \<and> pub_nitrite_mg_l (last (mqtt_out (snd res))) = nitrite_concentration (fst res)
            \<and> pub_nitrate_mg_l (last (mqtt_out (snd res))) = nitrate_concentration (fst res)
            \<and> \<not> pub_calibrated (last (mqtt_out (snd res)))
            \<and> pub_quality_score (last (mqtt_out (snd res))) = quality_score (fst res)
            \<and> quality_score (fst res) \<le> 70)
       \<and> (\<not> valid (fst res) \<longrightarrow> mqtt_out (snd res) = mqtt_out nst)
       \<and> nitrite_concentration (calculateConcentrations (config nst) (calibration_nn nst) c)
           = 10 powr ((nitrite_voltage c - nitrite_intercept (config nst)) / nitrite_slope (config nst))
       \<and> nitrate_concentration (calculateConcentrations (config nst) (calibration_nn nst) c)
           = 10 powr ((nitrate_voltage c - nitrate_intercept (config nst)) / nitrate_slope (config nst))
       \<and> calculateQualityScore (calibration_nn nst) now c \<le> 70
       \<and> calculateAmmoniaConcentration (calibration st) v T = 0
       \<and> takeAmmoniaMeasurement tempRaw phRaw v tnow st
           = st\<lparr>currentReading := (currentReading st)\<lparr>dataValid := False\<rparr>\<rparr>"
proof -
  have q: "calculateQualityScore (calibration_nn nst) now x \<le> 70" for x
    using uncal by (rule uncalibrated_score_bound)
  have live: "\<not> dummy_mode (config nst) \<longrightarrow>
            nitrite_concentration (fst res)
              = 10 powr ((mv_no2 - nitrite_intercept (config nst)) / nitrite_slope (config nst))
                * (1 + temp_coefficient (config nst) * (tempC - 25))
            \<and> nitrate_concentration (fst res)
              = 10 powr ((mv_no3 - nitrate_intercept (config nst)) / nitrate_slope (config nst))
                * (1 + temp_coefficient (config nst) * (tempC - 25))
            \<and> temperature_nn (fst res) = tempC"
    unfolding res using cycle_concentrations(1) uncal by blast
  have dummy: "dummy_mode (config nst) \<longrightarrow>
            nitrite_concentration (fst res) = 0.1 + real_of_int (rnd_no2 r) / 100
            \<and> nitrate_concentration (fst res) = 5 + real_of_int (rnd_no3 r) / 10
            \<and> temperature_nn (fst res) = 20 + real_of_int (rnd_temp r) / 10"
    unfolding res using cycle_concentrations(2) by blast
  have p: "valid (fst res) \<longrightarrow>
            mqtt_out (snd res) = mqtt_out nst @ [last (mqtt_out (snd res))]
            \<and> pub_nitrite_mg_l (last (mqtt_out (snd res))) = nitrite_concentration (fst res)
            \<and> pub_nitrate_mg_l (last (mqtt_out (snd res))) = nitrate_concentration (fst res)
            \<and> \<not> pub_calibrated (last (mqtt_out (snd res)))
            \<and> pub_quality_score (last (mqtt_out (snd res))) = quality_score (fst res)
            \<and> quality_score (fst res) \<le> 70"
  proof
    assume "valid (fst res)"
    then have "mqtt_out (snd res) = mqtt_out nst @ [last (mqtt_out (snd res))]
           \<and> pub_nitrite_mg_l (last (mqtt_out (snd res))) = nitrite_concentration (fst res)
           \<and> pub_nitrate_mg_l (last (mqtt_out (snd res))) = nitrate_concentration (fst res)
           \<and> pub_calibrated (last (mqtt_out (snd res))) = calibrated (calibration_nn nst)
           \<and> pub_quality_score (last (mqtt_out (snd res))) = quality_score (fst res)
           \<and> quality_score (fst res) = calculateQualityScore (calibration_nn nst) now (fst res)"
      unfolding res by (rule published_after_measurement(1))
    then show "mqtt_out (snd res) = mqtt_out nst @ [last (mqtt_out (snd res))]
            \<and> pub_nitrite_mg_l (last (mqtt_out (snd res))) = nitrite_concentration (fst res)
            \<and> pub_nitrate_mg_l (last (mqtt_out (snd res))) = nitrate_concentration (fst res)
            \<and> \<not> pub_calibrated (last (mqtt_out (snd res)))
            \<and> pub_quality_score (last (mqtt_out (snd res))) = quality_score (fst res)
            \<and> quality_score (fst res) \<le> 70"
      using uncal q [of "fst res"] by simp
  qed
  have n: "\<not> valid (fst res) \<longrightarrow> mqtt_out (snd res) = mqtt_out nst"
    unfolding res using published_after_measurement(2) by blast
  show ?thesis
    using live dummy p n default_model_used [OF uncal] q uncalibrated_ammonia_cycle [OF auncal]
    by blast
qed

theorem uncalibrated_cycle_witness:
  "\<not> calibrated (calibration_nn exampleNitriteState)
   \<and> \<not> dummy_mode (config exampleNitriteState)
   \<and> \<not> isValid (calibration exampleUncalibratedState)
   \<and> valid (fst (performMeasurement exampleMeasurementData exampleDraws 0 0 20 9 exampleNitriteState))
   \<and> nitrite_concentration
        (fst (performMeasurement exampleMeasurementData exampleDraws 0 0 20 9 exampleNitriteState))
       = 9 / 10
   \<and> pub_nitrite_mg_l (last (mqtt_out
        (snd (performMeasurement exampleMeasurementData exampleDraws 0 0 20 9 exampleNitriteState))))
       = 9 / 10
   \<and> \<not> pub_calibrated (last (mqtt_out
        (snd (performMeasurement exampleMeasurementData exampleDraws 0 0 20 9 exampleNitriteState))))
   \<and> pub_quality_score (last (mqtt_out
        (snd (performMeasurement exampleMeasurementData exampleDraws 0 0 20 9 exampleNitriteState)))) \<le> 70
   \<and> \<not> calibrated (calibration_nn exampleDummyNitriteState)
   \<and> dummy_mode (config exampleDummyNitriteState)
   \<and> valid (fst (performMeasurement exampleMeasurementData exampleDraws 0 0 20 9
                   exampleDummyNitriteState))
   \<and> pub_nitrite_mg_l (last (mqtt_out
        (snd (performMeasurement exampleMeasurementData exampleDraws 0 0 20 9
                exampleDummyNitriteState))))
       = 1 / 5
   \<and> pub_quality_score (last (mqtt_out
        (snd (performMeasurement exampleMeasurementData exampleDraws 0 0 20 9
                exampleDummyNitriteState)))) \<le> 70
   \<and> \<not> valid (fst (performMeasurement exampleMeasurementData exampleDraws 0 0 60 9
                     exampleNitriteState))
   \<and> mqtt_out (snd (performMeasurement exampleMeasurementData exampleDraws 0 0 60 9
                       exampleNitriteState)) = []
   \<and> calculateAmmoniaConcentration (calibration exampleUncalibratedState) 1 25 = 0"
proof -
  have u: "\<not> calibrated (calibration_nn exampleNitriteState)"
    "\<not> dummy_mode (config exampleNitriteState)"
    by (simp_all add: nitrite_example_defs)
  have ud: "\<not> calibrated (calibration_nn exampleDummyNitriteState)"
    "dummy_mode (config exampleDummyNitriteState)"
    by (simp_all add: nitrite_example_defs)
  have a: "\<not> isValid (calibration exampleUncalibratedState)"
    by (simp add: exampleUncalibratedState_def zeroCalibration_def)
  note th = uncalibrated_cycle [where nst = exampleNitriteState and uninit = exampleMeasurementData
      and r = exampleDraws and ?mv_no2.0 = 0 and ?mv_no3.0 = 0 and tempC = 20 and now = 9
      and st = exampleUncalibratedState and v = 1 and T = 25, OF u(1) refl a]
  note thd = uncalibrated_cycle [where nst = exampleDummyNitriteState and uninit = exampleMeasurementData
      and r = exampleDraws and ?mv_no2.0 = 0 and ?mv_no3.0 = 0 and tempC = 20 and now = 9
      and st = exampleUncalibratedState and v = 1 and T = 25, OF ud(1) refl a]
  have c: "nitrite_concentration
        (fst (performMeasurement exampleMeasurementData exampleDraws 0 0 20 9 exampleNitriteState))
       = 9 / 10"
    "nitrate_concentration
        (fst (performMeasurement exampleMeasurementData exampleDraws 0 0 20 9 exampleNitriteState))
       = 9 / 10"
    "temperature_nn
        (fst (performMeasurement exampleMeasurementData exampleDraws 0 0 20 9 exampleNitriteState))
       = 20"
    using th u(2) by (simp_all add: nitrite_example_defs)
  have v: "valid (fst (performMeasurement exampleMeasurementData exampleDraws 0 0 20 9 exampleNitriteState))"
    unfolding performMeasurement_fields c by simp
  have cd: "nitrite_concentration
        (fst (performMeasurement exampleMeasurementData exampleDraws 0 0 20 9 exampleDummyNitriteState))
       = 1 / 5"
    "nitrate_concentration
        (fst (performMeasurement exampleMeasurementData exampleDraws 0 0 20 9 exampleDummyNitriteState))
       = 7"
    "temperature_nn
        (fst (performMeasurement exampleMeasurementData exampleDraws 0 0 20 9 exampleDummyNitriteState))
       = 41 / 2"
    using thd ud(2) by (simp_all add: nitrite_example_defs)
  have vd: "valid (fst (performMeasurement exampleMeasurementData exampleDraws 0 0 20 9
                   exampleDummyNitriteState))"
    unfolding performMeasurement_fields cd by simp
  note thh = uncalibrated_cycle [where nst = exampleNitriteState and uninit = exampleMeasurementData
      and r = exampleDraws and ?mv_no2.0 = 0 and ?mv_no3.0 = 0 and tempC = 60 and now = 9
      and st = exampleUncalibratedState and v = 1 and T = 25, OF u(1) refl a]
  have ch: "temperature_nn
        (fst (performMeasurement exampleMeasurementData exampleDraws 0 0 60 9 exampleNitriteState))
       = 60"
    using thh u(2) by simp
  have vh: "\<not> valid (fst (performMeasurement exampleMeasurementData exampleDraws 0 0 60 9
                     exampleNitriteState))"
    unfolding performMeasurement_fields ch by simp
  have e: "mqtt_out exampleNitriteState = []" by (simp add: nitrite_example_defs)
  from thh vh e have ph: "mqtt_out (snd (performMeasurement exampleMeasurementData exampleDraws 0 0 60 9
                       exampleNitriteState)) = []"
    by simp
  from th thd u ud a c cd v vd vh ph show ?thesis by simp
qed

text \<open>
  The claim as stated (the computation does not return a constant) fails in the ammonia
  module: two different signals give the same 0, and the reading is marked invalid.
\<close>

theorem uncalibrated_ammonia_constant_counterexample:
  "\<not> isValid (calibration exampleUncalibratedState)
   \<and> calculateAmmoniaConcentration (calibration exampleUncalibratedState) 1 25 = 0
   \<and> calculateAmmoniaConcentration (calibration exampleUncalibratedState) 2 25 = 0
   \<and> \<not> dataValid (currentReading (takeAmmoniaMeasurement 25 7 1 5 exampleUncalibratedState))"
  by (simp add: takeAmmoniaMeasurement_dataValid calculateAmmoniaConcentration_def
      exampleUncalibratedState_def zeroCalibration_def ammonia_consts)

section \<open>Properties of the sample-preparation scheduler\<close>


lemma takeMeasurement_then_cleaning:
  "currentState ((takeMeasurement toc0 bod0 temp s)\<lparr>currentState := CLEANING, stateStartTime := later\<rparr>)
     = CLEANING"
  by simp












end
